theory Spec2Isabelle
  imports Complex_Main "HOL-Library.AList"
begin

section \<open>Numbers\<close>

text \<open>
  A JavaScript \<^verbatim>\<open>number\<close> is modelled as either the sentinel \<open>NaN\<close> or a finite value,
  carried as an exact real. Rounding, overflow and the two infinities of IEEE doubles are
  outside this model. \<^verbatim>\<open>undefined\<close> read from an array out of range behaves like
  \<open>NaN\<close> in every place the code uses it (\<^verbatim>\<open>isNaN(undefined)\<close> is true and
  arithmetic on it gives \<^verbatim>\<open>NaN\<close>), so such reads return \<open>NaN\<close>.
\<close>

datatype jsnum = NaN | Num real

fun isNaN :: "jsnum \<Rightarrow> bool" where
  "isNaN NaN = True"
| "isNaN (Num _) = False"

fun jsadd :: "jsnum \<Rightarrow> jsnum \<Rightarrow> jsnum" where
  "jsadd (Num a) (Num b) = Num (a + b)"
| "jsadd _ _ = NaN"

fun jssub :: "jsnum \<Rightarrow> jsnum \<Rightarrow> jsnum" where
  "jssub (Num a) (Num b) = Num (a - b)"
| "jssub _ _ = NaN"

fun jsmul :: "jsnum \<Rightarrow> jsnum \<Rightarrow> jsnum" where
  "jsmul (Num a) (Num b) = Num (a * b)"
| "jsmul _ _ = NaN"

text \<open>
  \<^verbatim>\<open>0 / 0\<close> is \<^verbatim>\<open>NaN\<close>. A non-zero dividend over zero would be an infinity, which is
  not represented: the only divisors of the modelled code are \<^verbatim>\<open>period + 1\<close>, a period
  (zero only together with the empty sum \<^verbatim>\<open>0\<close>) and a price guarded by \<^verbatim>\<open>price > 0\<close>.
\<close>

fun jsdiv :: "jsnum \<Rightarrow> jsnum \<Rightarrow> jsnum" where
  "jsdiv (Num a) (Num b) = (if b = 0 then NaN else Num (a / b))"
| "jsdiv _ _ = NaN"

text \<open>\<^verbatim>\<open>x > 0\<close>: every comparison with \<^verbatim>\<open>NaN\<close> is false.\<close>

fun jsgt0 :: "jsnum \<Rightarrow> bool" where
  "jsgt0 (Num a) = (0 < a)"
| "jsgt0 NaN = False"

text \<open>\<^verbatim>\<open>x || d\<close> on numbers: \<^verbatim>\<open>0\<close> and \<^verbatim>\<open>NaN\<close> are falsy.\<close>

fun js_or :: "jsnum \<Rightarrow> jsnum \<Rightarrow> jsnum" where
  "js_or NaN d = d"
| "js_or (Num a) d = (if a = 0 then d else Num a)"

text \<open>\<^verbatim>\<open>xs[i]\<close> on an array of numbers, for any integer index.\<close>

definition readAt :: "jsnum list \<Rightarrow> int \<Rightarrow> jsnum" where
  "readAt xs i = (if 0 \<le> i \<and> i < int (length xs) then xs ! nat i else NaN)"

text \<open>\<^verbatim>\<open>isNaN(x) ? undefined : x\<close>: an optional field of a candle.\<close>

fun undefinedIfNaN :: "jsnum \<Rightarrow> real option" where
  "undefinedIfNaN NaN = None"
| "undefinedIfNaN (Num a) = Some a"

section \<open>Candles and indicators\<close>

record Candle =
  time :: int
  "open" :: jsnum
  high :: jsnum
  low :: jsnum
  close :: jsnum
  volume :: jsnum
  isClosed :: bool
  ema7 :: "real option"
  ema25 :: "real option"
  ema99 :: "real option"
  macdLine :: "real option"
  macdSignal :: "real option"
  macdHist :: "real option"

text \<open>
  \<^verbatim>\<open>calculateEMA\<close>. Periods are non-negative integers. The three loops of the source are
  folds over their index ranges; the array under construction is the accumulator.
\<close>

definition emaStep :: "jsnum \<Rightarrow> Candle list \<Rightarrow> jsnum list \<Rightarrow> nat \<Rightarrow> jsnum list" where
  "emaStep k candles emaArray i =
     (let price = close (candles ! i);
          prevEMA = readAt emaArray (int i - 1)
      in if isNaN prevEMA then emaArray @ [price]
         else emaArray @ [jsadd (jsmul price k) (jsmul prevEMA (jssub (Num 1) k))])"

definition calculateEMA :: "Candle list \<Rightarrow> nat \<Rightarrow> jsnum list" where
  "calculateEMA candles period =
     (let k = jsdiv (Num 2) (Num (real period + 1)) in
      if length candles < period then replicate (length candles) NaN
      else
        let initialSum = foldl (\<lambda>s i. jsadd s (close (candles ! i))) (Num 0) [0..<period];
            initialEMA = jsdiv initialSum (Num (real period));
            emaArray = replicate (period - 1) NaN @ [initialEMA]
        in foldl (emaStep k candles) emaArray [period..<length candles])"

text \<open>\<^verbatim>\<open>calculateEMAFromValues\<close>, the helper local to \<^verbatim>\<open>calculateMACD\<close>.\<close>

fun findFirstValid :: "jsnum list \<Rightarrow> nat \<Rightarrow> int" where
  "findFirstValid [] i = - 1"
| "findFirstValid (v # vs) i = (if \<not> isNaN v then int i else findFirstValid vs (Suc i))"

definition valuesStep :: "jsnum \<Rightarrow> jsnum list \<Rightarrow> jsnum list \<Rightarrow> nat \<Rightarrow> jsnum list" where
  "valuesStep k values result i =
     (let val = values ! i;
          prev = readAt result (int i - 1)
      in if isNaN val then result @ [NaN]
         else result @ [jsadd (jsmul val k) (jsmul prev (jssub (Num 1) k))])"

definition calculateEMAFromValues :: "jsnum list \<Rightarrow> nat \<Rightarrow> jsnum list" where
  "calculateEMAFromValues values period =
     (let k = jsdiv (Num 2) (Num (real period + 1));
          firstValidIdx = findFirstValid values 0
      in if firstValidIdx = - 1 \<or> int (length values) - firstValidIdx < int period
         then replicate (length values) NaN
         else
           let first = nat firstValidIdx;
               sum = foldl (\<lambda>s i. jsadd s (values ! (first + i))) (Num 0) [0..<period];
               initial = jsdiv sum (Num (real period));
               result = replicate first NaN @ replicate (period - 1) NaN @ [initial];
               result = foldl (valuesStep k values) result [first + period..<length values];
               result = replicate (length values - length result) NaN @ result
           in drop (length result - length values) result)"

text \<open>
  \<^verbatim>\<open>calculateMACD\<close> returns the object \<^verbatim>\<open>{ macdLine, macdSignalLine, macdHist }\<close>, here the
  triple of the three arrays in that order.
\<close>

definition calculateMACD ::
  "Candle list \<Rightarrow> nat \<Rightarrow> nat \<Rightarrow> nat \<Rightarrow> jsnum list \<times> jsnum list \<times> jsnum list" where
  "calculateMACD candles fast slow signal =
     (let emaFast = calculateEMA candles fast;
          emaSlow = calculateEMA candles slow;
          macdLine = map (\<lambda>i. if isNaN (readAt emaFast (int i)) \<or> isNaN (readAt emaSlow (int i)) then NaN
                               else jssub (readAt emaFast (int i)) (readAt emaSlow (int i)))
                         [0..<length candles];
          macdSignalLine = calculateEMAFromValues macdLine signal;
          macdHist = map (\<lambda>i. jssub (macdLine ! i) (readAt macdSignalLine (int i)))
                         [0..<length macdLine]
      in (macdLine, macdSignalLine, macdHist))"

text \<open>
  \<^verbatim>\<open>enrichCandlesWithIndicators\<close>. The optional second argument is the object
  \<^verbatim>\<open>{ macdFast, macdSlow, macdSignal }\<close>, here an optional triple; \<^verbatim>\<open>config?.macdFast || 50\<close>
  takes the default when the argument is absent or the period is zero.
\<close>

definition periodOr :: "nat option \<Rightarrow> nat \<Rightarrow> nat" where
  "periodOr p d = (case p of None \<Rightarrow> d | Some n \<Rightarrow> if n = 0 then d else n)"

definition enrichCandlesWithIndicators ::
  "Candle list \<Rightarrow> (nat \<times> nat \<times> nat) option \<Rightarrow> Candle list" where
  "enrichCandlesWithIndicators candles config =
     (if length candles = 0 then []
      else
        let e7 = calculateEMA candles 7;
            e25 = calculateEMA candles 25;
            e99 = calculateEMA candles 99;
            f = periodOr (map_option fst config) 50;
            s = periodOr (map_option (fst \<circ> snd) config) 150;
            sig = periodOr (map_option (snd \<circ> snd) config) 9
        in case calculateMACD candles f s sig of
             (line, signalLine, hist) \<Rightarrow>
               map (\<lambda>i. (candles ! i)\<lparr>
                      ema7 := undefinedIfNaN (readAt e7 (int i)),
                      ema25 := undefinedIfNaN (readAt e25 (int i)),
                      ema99 := undefinedIfNaN (readAt e99 (int i)),
                      macdLine := undefinedIfNaN (readAt line (int i)),
                      macdSignal := undefinedIfNaN (readAt signalLine (int i)),
                      macdHist := undefinedIfNaN (readAt hist (int i))\<rparr>)
                   [0..<length candles])"

section \<open>Strategy runtime\<close>

text \<open>
  The records carry the fields that the modelled code reads or writes. The element type of
  the level lists and the values of the configuration fields that this code never reads
  (both declared in \<^verbatim>\<open>types.ts\<close>) are left abstract.
\<close>

typedecl LevelId

typedecl FieldValue

datatype Direction = FLAT | LONG | SHORT

record PositionState =
  direction :: Direction
  initialQuantity :: jsnum
  remainingQuantity :: jsnum
  entryPrice :: jsnum
  highestPrice :: jsnum
  lowestPrice :: jsnum
  openTime :: int
  tpLevelsHit :: "LevelId list"
  slLevelsHit :: "LevelId list"

record TradeStats =
  dailyTradeCount :: int
  lastTradeDate :: string

record WebhookPayload =
  secret :: string
  action :: string
  position :: string
  symbol :: string
  trade_amount :: jsnum
  leverage :: int
  timestamp :: string
  tv_exchange :: string
  strategy_name :: string
  tp_level :: string
  execution_price :: jsnum
  execution_quantity :: jsnum

record AlertLog =
  id :: string
  strategyId :: string
  strategyName :: string
  timestamp :: int
  payload :: WebhookPayload
  status :: string
  type :: string

record StrategyConfig =
  id :: string
  name :: string
  symbol :: string
  interval :: string
  macdFast :: nat
  macdSlow :: nat
  macdSignal :: nat
  tradeAmount :: jsnum
  maxDailyTrades :: int
  webhookUrl :: string
  secret :: string
  otherFields :: "string \<rightharpoonup> FieldValue"

text \<open>\<^verbatim>\<open>Partial<StrategyConfig>\<close>: every field may be absent.\<close>

record PartialStrategyConfig =
  id :: "string option"
  name :: "string option"
  symbol :: "string option"
  interval :: "string option"
  macdFast :: "nat option"
  macdSlow :: "nat option"
  macdSignal :: "nat option"
  tradeAmount :: "jsnum option"
  maxDailyTrades :: "int option"
  webhookUrl :: "string option"
  secret :: "string option"
  otherFields :: "string \<rightharpoonup> FieldValue"

record StrategyRuntime =
  config :: StrategyConfig
  candles :: "Candle list"
  positionState :: PositionState
  tradeStats :: TradeStats
  lastPrice :: jsnum

definition INITIAL_POS_STATE :: PositionState where
  "INITIAL_POS_STATE =
     \<lparr> direction = FLAT, initialQuantity = Num 0, remainingQuantity = Num 0,
       entryPrice = Num 0, highestPrice = Num 0, lowestPrice = Num 0, openTime = 0,
       tpLevelsHit = [], slLevelsHit = [] \<rparr>"

text \<open>
  \<^verbatim>\<open>INITIAL_STATS\<close>: the date is \<^verbatim>\<open>new Date().toISOString().split('T')[0]\<close>, the part of the
  ISO string before its first \<^verbatim>\<open>T\<close>; the ISO string of the moment of loading is a parameter.
\<close>

definition isoDate :: "string \<Rightarrow> string" where
  "isoDate isoString = takeWhile (\<lambda>c. c \<noteq> CHR ''T'') isoString"

definition INITIAL_STATS :: "string \<Rightarrow> TradeStats" where
  "INITIAL_STATS loadedISO = \<lparr> dailyTradeCount = 0, lastTradeDate = isoDate loadedISO \<rparr>"

text \<open>
  The state of the component: the mutable reference \<^verbatim>\<open>latestStrategiesRef.current\<close> (the
  source of truth), the React state \<^verbatim>\<open>strategies\<close> mirroring it, the active id and the
  logs. An object keyed by strategy id is an association list in insertion order. Two
  further fields record what leaves the component: the requests handed to \<^verbatim>\<open>fetch\<close>
  (oldest first) and the lines written by \<^verbatim>\<open>console.error\<close>.
\<close>

record App =
  latestStrategiesRef :: "(string \<times> StrategyRuntime) list"
  strategies :: "(string \<times> StrategyRuntime) list"
  activeStrategyId :: string
  logs :: "AlertLog list"
  fetched :: "(string \<times> WebhookPayload) list"
  console :: "string list"

text \<open>
  What a call of \<^verbatim>\<open>sendWebhook\<close> takes from its environment: the random id, the clock and
  whether \<^verbatim>\<open>fetch\<close> throws.
\<close>

record SendEnv =
  randomId :: string
  dateNow :: int
  fetchThrows :: bool

text \<open>\<^verbatim>\<open>new Date()\<close>, as far as the code reads it.\<close>

record JsDate =
  toISOString :: string
  getTime :: int

text \<open>The label of a manual order, four CJK characters, as its UTF-8 bytes.\<close>

definition manualLabel :: string where
  "manualLabel = map char_of
     [0xE6, 0x89, 0x8B, 0xE5, 0x8A, 0xA8, 0xE6, 0x93, 0x8D, 0xE4, 0xBD, 0x9C :: nat]"

definition sendWebhook ::
  "SendEnv \<Rightarrow> WebhookPayload \<Rightarrow> string \<Rightarrow> string \<Rightarrow> App \<Rightarrow> App" where
  "sendWebhook env payload' strategyId' strategyName' app =
     (let newLog = \<lparr> AlertLog.id = randomId env, strategyId = strategyId',
                      strategyName = strategyName', AlertLog.timestamp = dateNow env,
                      payload = payload', status = ''sent'',
                      type = (if tp_level payload' = ''Manual'' then ''Manual'' else ''Strategy'') \<rparr>;
          app1 = app\<lparr> logs := newLog # logs app \<rparr>
      in case map_of (latestStrategiesRef app1) strategyId' of
           None \<Rightarrow> app1
         | Some rt \<Rightarrow>
             let url = StrategyConfig.webhookUrl (config rt) in
             if url \<noteq> [] then
               (let app2 = app1\<lparr> fetched := fetched app1 @ [(url, payload')] \<rparr>
                in if fetchThrows env
                   then app2\<lparr> console := console app2 @ [''Webhook Error''] \<rparr>
                   else app2)
             else app1)"

definition handleManualOrder :: "JsDate \<Rightarrow> SendEnv \<Rightarrow> Direction \<Rightarrow> App \<Rightarrow> App" where
  "handleManualOrder now env type' app =
     (case map_of (latestStrategiesRef app) (activeStrategyId app) of
        None \<Rightarrow> app
      | Some activeStrategy \<Rightarrow>
          let price = js_or (lastPrice activeStrategy) (Num 0);
              cfg = config activeStrategy;
              ps = positionState activeStrategy;
              act = (case type' of LONG \<Rightarrow> ''buy'' | SHORT \<Rightarrow> ''sell''
                     | FLAT \<Rightarrow> if direction ps = LONG then ''sell'' else ''buy_to_cover'');
              pos = (case type' of LONG \<Rightarrow> ''long'' | SHORT \<Rightarrow> ''short'' | FLAT \<Rightarrow> ''flat'');
              quantity = (case type' of
                            FLAT \<Rightarrow> remainingQuantity ps
                          | _ \<Rightarrow> if jsgt0 price
                                 then jsdiv (StrategyConfig.tradeAmount cfg) price else Num 0);
              tradeAmount' = (case type' of
                                FLAT \<Rightarrow> jsmul quantity price
                              | _ \<Rightarrow> StrategyConfig.tradeAmount cfg);
              payload' = \<lparr> WebhookPayload.secret = StrategyConfig.secret cfg,
                            action = act, position = pos,
                            WebhookPayload.symbol = StrategyConfig.symbol cfg,
                            trade_amount = tradeAmount', leverage = 5,
                            WebhookPayload.timestamp = toISOString now,
                            tv_exchange = ''BINANCE'', strategy_name = ''Manual_Override'',
                            tp_level = manualLabel, execution_price = price,
                            execution_quantity = quantity \<rparr>;
              newState = (if type' = FLAT then INITIAL_POS_STATE
                          else \<lparr> direction = type', initialQuantity = quantity,
                                 remainingQuantity = quantity, entryPrice = price,
                                 highestPrice = (if type' = LONG then price else Num 0),
                                 lowestPrice = (if type' = SHORT then price else Num 0),
                                 openTime = getTime now, tpLevelsHit = [], slLevelsHit = [] \<rparr>);
              newStats = (if type' = FLAT then tradeStats activeStrategy
                          else (tradeStats activeStrategy)
                                 \<lparr> dailyTradeCount := dailyTradeCount (tradeStats activeStrategy) + 1 \<rparr>);
              newRuntime = activeStrategy\<lparr> positionState := newState, tradeStats := newStats \<rparr>;
              ref = AList.update (activeStrategyId app) newRuntime (latestStrategiesRef app);
              app1 = app\<lparr> latestStrategiesRef := ref, strategies := ref \<rparr>
          in sendWebhook env payload' (activeStrategyId app) (StrategyConfig.name cfg) app1)"

text \<open>\<^verbatim>\<open>{ ...oldRuntime.config, ...updates }\<close>: a field of the update wins when it is present.\<close>

definition mergeConfig :: "StrategyConfig \<Rightarrow> PartialStrategyConfig \<Rightarrow> StrategyConfig" where
  "mergeConfig c u =
     \<lparr> StrategyConfig.id = (case PartialStrategyConfig.id u of None \<Rightarrow> StrategyConfig.id c | Some v \<Rightarrow> v),
       StrategyConfig.name = (case PartialStrategyConfig.name u of None \<Rightarrow> StrategyConfig.name c | Some v \<Rightarrow> v),
       StrategyConfig.symbol = (case PartialStrategyConfig.symbol u of None \<Rightarrow> StrategyConfig.symbol c | Some v \<Rightarrow> v),
       StrategyConfig.interval = (case PartialStrategyConfig.interval u of None \<Rightarrow> StrategyConfig.interval c | Some v \<Rightarrow> v),
       StrategyConfig.macdFast = (case PartialStrategyConfig.macdFast u of None \<Rightarrow> StrategyConfig.macdFast c | Some v \<Rightarrow> v),
       StrategyConfig.macdSlow = (case PartialStrategyConfig.macdSlow u of None \<Rightarrow> StrategyConfig.macdSlow c | Some v \<Rightarrow> v),
       StrategyConfig.macdSignal = (case PartialStrategyConfig.macdSignal u of None \<Rightarrow> StrategyConfig.macdSignal c | Some v \<Rightarrow> v),
       StrategyConfig.tradeAmount = (case PartialStrategyConfig.tradeAmount u of None \<Rightarrow> StrategyConfig.tradeAmount c | Some v \<Rightarrow> v),
       StrategyConfig.maxDailyTrades = (case PartialStrategyConfig.maxDailyTrades u of None \<Rightarrow> StrategyConfig.maxDailyTrades c | Some v \<Rightarrow> v),
       StrategyConfig.webhookUrl = (case PartialStrategyConfig.webhookUrl u of None \<Rightarrow> StrategyConfig.webhookUrl c | Some v \<Rightarrow> v),
       StrategyConfig.secret = (case PartialStrategyConfig.secret u of None \<Rightarrow> StrategyConfig.secret c | Some v \<Rightarrow> v),
       StrategyConfig.otherFields = StrategyConfig.otherFields c ++ PartialStrategyConfig.otherFields u \<rparr>"

text \<open>\<^verbatim>\<open>updates.symbol && updates.symbol !== old\<close>: present, not the empty string, and different.\<close>

definition changedTo :: "string option \<Rightarrow> string \<Rightarrow> bool" where
  "changedTo v old = (case v of None \<Rightarrow> False | Some s \<Rightarrow> s \<noteq> [] \<and> s \<noteq> old)"

definition updateStrategyConfig :: "string \<Rightarrow> PartialStrategyConfig \<Rightarrow> App \<Rightarrow> App" where
  "updateStrategyConfig id' updates app =
     (case map_of (latestStrategiesRef app) id' of
        None \<Rightarrow> app
      | Some oldRuntime \<Rightarrow>
          let newConfig = mergeConfig (config oldRuntime) updates;
              shouldResetData =
                (changedTo (PartialStrategyConfig.symbol updates) (StrategyConfig.symbol (config oldRuntime))
                 \<or> changedTo (PartialStrategyConfig.interval updates) (StrategyConfig.interval (config oldRuntime)));
              newRuntime = oldRuntime\<lparr> config := newConfig,
                                         candles := (if shouldResetData then [] else candles oldRuntime),
                                         lastPrice := (if shouldResetData then Num 0 else lastPrice oldRuntime) \<rparr>;
              ref = AList.update id' newRuntime (latestStrategiesRef app)
          in app\<lparr> latestStrategiesRef := ref, strategies := ref \<rparr>)"

section \<open>The processing loop\<close>

text \<open>
  The strategy engine \<^verbatim>\<open>evaluateStrategy\<close> lies outside this development: the loop takes it
  as a parameter and uses of its result what the source uses.
\<close>

record EvalResult =
  actions :: "WebhookPayload list"
  newPositionState :: PositionState
  newTradeStats :: TradeStats

type_synonym Engine =
  "Candle list \<Rightarrow> StrategyConfig \<Rightarrow> PositionState \<Rightarrow> TradeStats \<Rightarrow> EvalResult"

text \<open>\<^verbatim>\<open>toLowerCase\<close> on the ASCII letters.\<close>

definition toLowerCase :: "string \<Rightarrow> string" where
  "toLowerCase s =
     map (\<lambda>c. if 65 \<le> (of_char c :: nat) \<and> (of_char c :: nat) \<le> 90
              then char_of ((of_char c :: nat) + 32) else c) s"

definition targetStream :: "StrategyRuntime \<Rightarrow> string" where
  "targetStream rt =
     toLowerCase (StrategyConfig.symbol (config rt)) @ ''@kline_''
       @ StrategyConfig.interval (config rt)"

text \<open>
  Step 2 of the loop body: the incoming candle replaces the last one when the times are
  equal (\<^verbatim>\<open>lastCandle\<close> is \<^verbatim>\<open>undefined\<close> on an empty window) and is pushed otherwise;
  \<^verbatim>\<open>slice(-550)\<close> keeps the last 550 entries.
\<close>

definition updateCandles :: "Candle list \<Rightarrow> Candle \<Rightarrow> Candle list" where
  "updateCandles cs newCandle =
     (let updatedCandles =
            (if cs \<noteq> [] \<and> time (last cs) = time newCandle
             then cs[length cs - 1 := newCandle]
             else cs @ [newCandle])
      in if length updatedCandles > 550
         then drop (length updatedCandles - 550) updatedCandles
         else updatedCandles)"

text \<open>Steps 2, 3 and 5 for one runtime whose stream matches: the new runtime and the engine's actions.\<close>

definition nextRuntime ::
  "Engine \<Rightarrow> Candle \<Rightarrow> StrategyRuntime \<Rightarrow> StrategyRuntime \<times> WebhookPayload list" where
  "nextRuntime evaluateStrategy newCandle rt =
     (let updatedCandles = updateCandles (candles rt) newCandle;
          enriched = enrichCandlesWithIndicators updatedCandles
                       (Some (StrategyConfig.macdFast (config rt),
                              StrategyConfig.macdSlow (config rt),
                              StrategyConfig.macdSignal (config rt)));
          result = evaluateStrategy enriched (config rt) (positionState rt) (tradeStats rt);
          newRuntime = rt\<lparr> candles := enriched, lastPrice := close newCandle,
                             positionState := newPositionState result,
                             tradeStats := newTradeStats result \<rparr>
      in (newRuntime, actions result))"

text \<open>
  Step 4: \<^verbatim>\<open>result.actions.forEach(a => sendWebhook(...))\<close>; the environment of the
  \<open>j\<close>-th call for a strategy is \<open>envs id j\<close>.
\<close>

definition sendAll ::
  "(nat \<Rightarrow> SendEnv) \<Rightarrow> WebhookPayload list \<Rightarrow> string \<Rightarrow> string \<Rightarrow> App \<Rightarrow> App" where
  "sendAll envs as strategyId' strategyName' app =
     foldl (\<lambda>a (j, p). sendWebhook (envs j) p strategyId' strategyName' a) app (enumerate 0 as)"

text \<open>
  The body of the \<^verbatim>\<open>forEach\<close> over \<^verbatim>\<open>Object.values(currentRuntimes)\<close>. The accumulator is
  the component state together with the locals \<^verbatim>\<open>updates\<close> and \<^verbatim>\<open>hasUpdates\<close>.
\<close>

definition forEachRuntime ::
  "Engine \<Rightarrow> (string \<Rightarrow> nat \<Rightarrow> SendEnv) \<Rightarrow> string \<Rightarrow> Candle
     \<Rightarrow> App \<times> (string \<times> StrategyRuntime) list \<times> bool \<Rightarrow> StrategyRuntime
     \<Rightarrow> App \<times> (string \<times> StrategyRuntime) list \<times> bool" where
  "forEachRuntime evaluateStrategy envs streamName newCandle acc rt =
     (case acc of (app, updates, hasUpdates) \<Rightarrow>
        if targetStream rt = streamName then
          (case nextRuntime evaluateStrategy newCandle rt of
             (newRuntime, as) \<Rightarrow>
               let rid = StrategyConfig.id (config rt);
                   app1 = sendAll (envs rid) as rid (StrategyConfig.name (config rt)) app;
                   app2 = app1\<lparr> latestStrategiesRef :=
                                   AList.update rid newRuntime (latestStrategiesRef app1) \<rparr>
               in (app2, AList.update rid newRuntime updates, True))
        else (app, updates, hasUpdates))"

definition processGlobalRealtimeCandle ::
  "Engine \<Rightarrow> (string \<Rightarrow> nat \<Rightarrow> SendEnv) \<Rightarrow> string \<Rightarrow> Candle \<Rightarrow> App \<Rightarrow> App" where
  "processGlobalRealtimeCandle evaluateStrategy envs streamName newCandle app =
     (let currentRuntimes = latestStrategiesRef app in
      case foldl (forEachRuntime evaluateStrategy envs streamName newCandle)
                 (app, [], False) (map snd currentRuntimes) of
        (app1, updates, hasUpdates) \<Rightarrow>
          if hasUpdates
          then app1\<lparr> strategies := foldl (\<lambda>m (k, v). AList.update k v m) (strategies app1) updates \<rparr>
          else app1)"

section \<open>Definitions after the words of the specification\<close>

text \<open>The simple average of a list of values: their sum, from 0, over their number.\<close>

definition simpleAverage :: "jsnum list \<Rightarrow> jsnum" where
  "simpleAverage xs = jsdiv (foldl jsadd (Num 0) xs) (Num (real (length xs)))"

text \<open>
  The recurrence of the specification after the seed: each further frame is
  \<open>value * k + previous * (1 - k)\<close>.
\<close>

fun specRecurrence :: "jsnum \<Rightarrow> jsnum \<Rightarrow> jsnum list \<Rightarrow> jsnum list" where
  "specRecurrence k previous [] = []"
| "specRecurrence k previous (v # vs) =
     (let e = jsadd (jsmul v k) (jsmul previous (jssub (Num 1) k))
      in e # specRecurrence k e vs)"

text \<open>
  The rule of the specification for a period \<open>P\<close> over a list of values: all undefined when
  there are fewer than \<open>P\<close> values; otherwise undefined before index \<open>P - 1\<close>, the simple
  average of the first \<open>P\<close> values (the seed) at index \<open>P - 1\<close>, then the recurrence with
  \<open>k = 2 / (P + 1)\<close>. For \<open>P = 0\<close> the index of the seed is \<open>-1\<close>, before the first
  frame: the seed, the average of no values, is not a frame, and every frame follows from it
  by the recurrence.
\<close>

definition specEMA :: "jsnum list \<Rightarrow> nat \<Rightarrow> jsnum list" where
  "specEMA values P =
     (if length values < P then replicate (length values) NaN
      else if P = 0
      then specRecurrence (Num (2 / (real P + 1))) (simpleAverage (take P values)) (drop P values)
      else replicate (P - 1) NaN
           @ simpleAverage (take P values)
           # specRecurrence (Num (2 / (real P + 1))) (simpleAverage (take P values)) (drop P values))"


section \<open>Concrete inputs\<close>

text \<open>A strategy with a position still at its initial state, five trades on record and a last price of 100.\<close>

definition exampleConfig :: StrategyConfig where
  "exampleConfig =
     \<lparr> StrategyConfig.id = ''default'', StrategyConfig.name = ''Strategy 1'',
       StrategyConfig.symbol = ''BTCUSDT'', StrategyConfig.interval = ''1m'',
       StrategyConfig.macdFast = 12, StrategyConfig.macdSlow = 26, StrategyConfig.macdSignal = 9,
       StrategyConfig.tradeAmount = Num 1000, StrategyConfig.maxDailyTrades = 3,
       StrategyConfig.webhookUrl = ''https://hooks.example/order'',
       StrategyConfig.secret = ''s3cret'', StrategyConfig.otherFields = Map.empty \<rparr>"

definition exampleRuntime :: StrategyRuntime where
  "exampleRuntime =
     \<lparr> config = exampleConfig, candles = [], positionState = INITIAL_POS_STATE,
       tradeStats = \<lparr> dailyTradeCount = 5, lastTradeDate = ''2024-01-01'' \<rparr>,
       lastPrice = Num 100 \<rparr>"

definition exampleApp :: "StrategyRuntime \<Rightarrow> App" where
  "exampleApp rt =
     \<lparr> latestStrategiesRef = [(''default'', rt)], strategies = [(''default'', rt)],
       activeStrategyId = ''default'', logs = [], fetched = [], console = [] \<rparr>"

definition exampleNow :: JsDate where
  "exampleNow = \<lparr> toISOString = ''2024-01-05T12:00:00.000Z'', getTime = 1704456000000 \<rparr>"

definition exampleEnv :: "bool \<Rightarrow> SendEnv" where
  "exampleEnv throws = \<lparr> randomId = ''k3x9q0a1z'', dateNow = 1704456000001, fetchThrows = throws \<rparr>"

text \<open>A candle with the given time and close, before enrichment.\<close>

definition candleAt :: "int \<Rightarrow> jsnum \<Rightarrow> Candle" where
  "candleAt t c =
     \<lparr> time = t, open = c, high = c, low = c, close = c, volume = Num 1, isClosed = True,
       ema7 = None, ema25 = None, ema99 = None,
       macdLine = None, macdSignal = None, macdHist = None \<rparr>"

text \<open>The update object \<^verbatim>\<open>{}\<close>.\<close>

definition noUpdates :: PartialStrategyConfig where
  "noUpdates =
     \<lparr> PartialStrategyConfig.id = None, PartialStrategyConfig.name = None,
       PartialStrategyConfig.symbol = None, PartialStrategyConfig.interval = None,
       PartialStrategyConfig.macdFast = None, PartialStrategyConfig.macdSlow = None,
       PartialStrategyConfig.macdSignal = None, PartialStrategyConfig.tradeAmount = None,
       PartialStrategyConfig.maxDailyTrades = None, PartialStrategyConfig.webhookUrl = None,
       PartialStrategyConfig.secret = None, PartialStrategyConfig.otherFields = Map.empty \<rparr>"

text \<open>The closes 1, 2, 3, 4, 5 at the times 1 to 5.\<close>

definition exampleWindow :: "Candle list" where
  "exampleWindow = [candleAt 1 (Num 1), candleAt 2 (Num 2), candleAt 3 (Num 3),
                    candleAt 4 (Num 4), candleAt 5 (Num 5)]"

text \<open>The fields of a candle that come from the feed, without the indicator fields.\<close>

definition ohlcv :: "Candle \<Rightarrow> int \<times> jsnum \<times> jsnum \<times> jsnum \<times> jsnum \<times> jsnum \<times> bool" where
  "ohlcv c = (time c, open c, high c, low c, close c, volume c, isClosed c)"

text \<open>An engine that never trades, and the environment that is the same for every call.\<close>

definition idleEngine :: Engine where
  "idleEngine enriched cfg ps ts = \<lparr> actions = [], newPositionState = ps, newTradeStats = ts \<rparr>"

definition exampleEnvs :: "string \<Rightarrow> nat \<Rightarrow> SendEnv" where
  "exampleEnvs sid j = exampleEnv False"

text \<open>The example strategy with a window of two bars, at the times 1 and 2.\<close>

definition exampleWatching :: StrategyRuntime where
  "exampleWatching = exampleRuntime\<lparr> candles := [candleAt 1 (Num 100), candleAt 2 (Num 101)] \<rparr>"

section \<open>Loops that push one element per round\<close>

text \<open>
  The loops of the indicator code push exactly one element per index and never change what
  is already in the array. For such a step the array after the loop has one entry per index
  visited, keeps every earlier entry, and the entry at index \<open>i\<close> is the one pushed in round \<open>i\<close>.
\<close>

lemma foldl_push_length:
  assumes "\<And>arr i. length (f arr i) = Suc (length arr)"
  shows "length (foldl f arr [a..<b]) = length arr + (b - a)"
proof (induction b)
  case 0
  show ?case by simp
next
  case (Suc b)
  show ?case
  proof (cases "a \<le> b")
    case True
    then show ?thesis using Suc assms by (simp add: Suc_diff_le)
  next
    case False
    then show ?thesis by simp
  qed
qed

lemma foldl_push_nth:
  assumes len: "\<And>arr i. length (f arr i) = Suc (length arr)"
    and old: "\<And>arr i j. j < length arr \<Longrightarrow> f arr i ! j = arr ! j"
    and j: "j < length arr"
  shows "foldl f arr [a..<b] ! j = arr ! j"
proof (induction b)
  case 0
  show ?case by simp
next
  case (Suc b)
  show ?case
  proof (cases "a \<le> b")
    case True
    have "j < length (foldl f arr [a..<b])"
      using j foldl_push_length [of f arr a b, OF len] by simp
    then show ?thesis using True Suc old by simp
  next
    case False
    then show ?thesis by simp
  qed
qed

lemma foldl_push_new:
  assumes len: "\<And>arr i. length (f arr i) = Suc (length arr)"
    and old: "\<And>arr i j. j < length arr \<Longrightarrow> f arr i ! j = arr ! j"
    and i: "a \<le> i" "i < b" and arr: "length arr = a"
  shows "foldl f arr [a..<b] ! i = f (foldl f arr [a..<i]) i ! i"
proof -
  have split: "[a..<b] = [a..<i] @ i # [Suc i..<b]"
  proof -
    have "[a..<b] = [a..<i] @ [i..<b]"
      using i by (metis le_Suc_ex less_imp_le_nat upt_add_eq_append)
    then show ?thesis using i by (simp add: upt_conv_Cons)
  qed
  have l: "length (f (foldl f arr [a..<i]) i) = Suc i"
    using foldl_push_length [of f arr a i, OF len] arr i len by simp
  have "foldl f arr [a..<b] = foldl f (f (foldl f arr [a..<i]) i) [Suc i..<b]"
    by (simp add: split)
  then show ?thesis
    using foldl_push_nth [of f i "f (foldl f arr [a..<i]) i" "Suc i" b, OF len old] l by simp
qed

lemma foldl_push_prefix:
  assumes len: "\<And>arr i. length (f arr i) = Suc (length arr)"
    and old: "\<And>arr i j. j < length arr \<Longrightarrow> f arr i ! j = arr ! j"
    and i: "a \<le> i" "i \<le> b" and arr: "length arr = a" and j: "j < i"
  shows "foldl f arr [a..<i] ! j = foldl f arr [a..<b] ! j"
proof -
  have split: "[a..<b] = [a..<i] @ [i..<b]"
    using i by (metis le_Suc_ex upt_add_eq_append)
  have l: "length (foldl f arr [a..<i]) = i"
    using foldl_push_length [of f arr a i, OF len] arr i by simp
  have "foldl f arr [a..<b] = foldl f (foldl f arr [a..<i]) [i..<b]"
    by (simp add: split)
  then show ?thesis
    using foldl_push_nth [of f j "foldl f arr [a..<i]" i b, OF len old] l j by simp
qed


section \<open>The exponential moving average\<close>

lemma length_emaStep: "length (emaStep k cs arr i) = Suc (length arr)"
  by (simp add: emaStep_def Let_def)

lemma emaStep_old: "j < length arr \<Longrightarrow> emaStep k cs arr i ! j = arr ! j"
  by (simp add: emaStep_def Let_def nth_append)

lemma emaStep_new:
  "0 < length arr \<Longrightarrow> length arr = i \<Longrightarrow>
   emaStep k cs arr i ! i =
     (if isNaN (arr ! (i - 1)) then close (cs ! i)
      else jsadd (jsmul (close (cs ! i)) k) (jsmul (arr ! (i - 1)) (jssub (Num 1) k)))"
  by (auto simp add: emaStep_def Let_def readAt_def nat_diff_distrib)

lemma foldl_jsadd_closes:
  "P \<le> length cs \<Longrightarrow>
   foldl (\<lambda>s i. jsadd s (close (cs ! i))) (Num 0) [0..<P] = foldl jsadd (Num 0) (map close (take P cs))"
proof -
  assume P: "P \<le> length cs"
  have "map close (take P cs) = map (\<lambda>i. close (cs ! i)) [0..<P]"
    using P by (simp add: list_eq_iff_nth_eq)
  then show ?thesis by (simp add: foldl_map)
qed

lemma foldl_jsadd_Num: "foldl jsadd (Num a) (map Num xs) = Num (a + sum_list xs)"
  by (induction xs arbitrary: a) (simp_all add: add.assoc)

lemma simpleAverage_Num:
  "xs \<noteq> [] \<Longrightarrow> simpleAverage (map Num xs) = Num (sum_list xs / real (length xs))"
  by (simp add: simpleAverage_def foldl_jsadd_Num)

lemma calculateEMA_unfold:
  assumes "P \<le> length cs"
  shows "calculateEMA cs P =
    foldl (emaStep (Num (2 / (real P + 1))) cs)
      (replicate (P - 1) NaN @ [jsdiv (foldl jsadd (Num 0) (map close (take P cs))) (Num (real P))])
      [P..<length cs]"
proof -
  have "real P + 1 \<noteq> 0" by (metis add.commute of_nat_Suc of_nat_neq_0 add.commute)
  then show ?thesis
    using assms by (simp add: calculateEMA_def Let_def foldl_jsadd_closes)
qed

lemma calculateEMA_short:
  "length cs < P \<Longrightarrow> calculateEMA cs P = replicate (length cs) NaN"
  by (simp add: calculateEMA_def Let_def)

lemma calculateEMA_length:
  assumes "0 < P"
  shows "length (calculateEMA cs P) = length cs"
proof (cases "length cs < P")
  case True
  then show ?thesis by (simp add: calculateEMA_short)
next
  case False
  then have P: "P \<le> length cs" by simp
  show ?thesis
    using assms P
    by (simp add: calculateEMA_unfold [OF P] foldl_push_length [of "emaStep k cs" for k, OF length_emaStep])
qed

lemma calculateEMA_head:
  assumes "0 < P" and P: "P \<le> length cs" and i: "i < P"
  shows "calculateEMA cs P ! i =
    (replicate (P - 1) NaN @ [jsdiv (foldl jsadd (Num 0) (map close (take P cs))) (Num (real P))]) ! i"
  using assms
  by (simp add: calculateEMA_unfold [OF P]
        foldl_push_nth [of "emaStep k cs" for k, OF length_emaStep emaStep_old])

lemma calculateEMA_step:
  assumes P0: "0 < P" and i: "P \<le> i" "i < length cs"
  shows "calculateEMA cs P ! i =
     (if isNaN (calculateEMA cs P ! (i - 1)) then close (cs ! i)
      else jsadd (jsmul (close (cs ! i)) (Num (2 / (real P + 1))))
                 (jsmul (calculateEMA cs P ! (i - 1)) (jssub (Num 1) (Num (2 / (real P + 1))))))"
proof -
  define k where "k = Num (2 / (real P + 1))"
  define init where
    "init = replicate (P - 1) NaN @ [jsdiv (foldl jsadd (Num 0) (map close (take P cs))) (Num (real P))]"
  define E where "E = foldl (emaStep k cs) init [P..<i]"
  have P: "P \<le> length cs" using i by simp
  have li: "length init = P" using P0 by (simp add: init_def)
  have r: "calculateEMA cs P = foldl (emaStep k cs) init [P..<length cs]"
    unfolding k_def init_def by (rule calculateEMA_unfold [OF P])
  have lE: "length E = i"
    using foldl_push_length [of "emaStep k cs" init P i, OF length_emaStep] li i
    by (simp add: E_def)
  have new: "calculateEMA cs P ! i = emaStep k cs E i ! i"
    unfolding r E_def by (rule foldl_push_new [OF length_emaStep emaStep_old i li])
  have "i - 1 < i" using P0 i by simp
  then have pre: "E ! (i - 1) = calculateEMA cs P ! (i - 1)"
    unfolding r E_def using i
    by (intro foldl_push_prefix [OF length_emaStep emaStep_old _ _ li]) simp_all
  have "0 < length E" using lE P0 i by simp
  then have "emaStep k cs E i ! i =
     (if isNaN (E ! (i - 1)) then close (cs ! i)
      else jsadd (jsmul (close (cs ! i)) k) (jsmul (E ! (i - 1)) (jssub (Num 1) k)))"
    using lE by (rule emaStep_new)
  then show ?thesis
    unfolding new pre k_def .
qed


lemma not_isNaN_iff: "\<not> isNaN x \<longleftrightarrow> (\<exists>a. x = Num a)"
  by (cases x) simp_all

lemma closes_Num:
  assumes "\<forall>c\<in>set cs. \<not> isNaN (close c)"
  shows "\<exists>xs. map close cs = map Num xs"
  using assms
proof (induction cs)
  case Nil
  show ?case by simp
next
  case (Cons c cs)
  then obtain xs a where "map close cs = map Num xs" "close c = Num a"
    by (auto simp add: not_isNaN_iff)
  then have "map close (c # cs) = map Num (a # xs)" by simp
  then show ?case by blast
qed

lemma calculateEMA_seed_defined:
  assumes P0: "0 < P" and P: "P \<le> length cs" and ok: "\<forall>c\<in>set cs. \<not> isNaN (close c)"
  shows "\<not> isNaN (simpleAverage (map close (take P cs)))"
proof -
  obtain xs where xs: "map close cs = map Num xs"
    using closes_Num [OF ok] by blast
  have "map close (take P cs) = map Num (take P xs)"
    using xs by (simp add: take_map [symmetric])
  moreover have "length xs = length cs"
    using xs by (metis length_map)
  ultimately show ?thesis
    using P0 P by (simp add: simpleAverage_def foldl_jsadd_Num)
qed

lemma calculateEMA_seed:
  assumes P0: "0 < P" and P: "P \<le> length cs"
  shows "calculateEMA cs P ! (P - 1) = simpleAverage (map close (take P cs))"
  using assms by (simp add: calculateEMA_head simpleAverage_def nth_append)

lemma calculateEMA_before_seed:
  assumes P0: "0 < P" and P: "P \<le> length cs" and i: "i < P - 1"
  shows "calculateEMA cs P ! i = NaN"
  using assms by (simp add: calculateEMA_head nth_append)

lemma calculateEMA_defined:
  assumes P0: "0 < P" and ok: "\<forall>c\<in>set cs. \<not> isNaN (close c)"
  shows "P - 1 \<le> i \<Longrightarrow> i < length cs \<Longrightarrow> \<not> isNaN (calculateEMA cs P ! i)"
proof (induction i)
  case 0
  then have "P = 1" using P0 by simp
  then show ?case
    using calculateEMA_seed [of P cs] calculateEMA_seed_defined [of P cs] 0 ok by simp
next
  case (Suc i)
  show ?case
  proof (cases "Suc i = P - 1")
    case True
    then show ?thesis
      using calculateEMA_seed [of P cs] calculateEMA_seed_defined [of P cs] Suc.prems P0 ok
      by simp
  next
    case False
    then have i: "P \<le> Suc i" "P - 1 \<le> i" using Suc.prems by simp_all
    have prev: "\<not> isNaN (calculateEMA cs P ! i)"
      using Suc.IH i Suc.prems by simp
    have c: "\<not> isNaN (close (cs ! Suc i))"
      using ok Suc.prems by simp
    obtain a e where "close (cs ! Suc i) = Num a" "calculateEMA cs P ! i = Num e"
      using prev c by (auto simp add: not_isNaN_iff)
    then show ?thesis
      using calculateEMA_step [OF P0 i(1) Suc.prems(2)] by simp
  qed
qed

text \<open>
  On a window without \<open>NaN\<close> closes the code computes the rule of the specification.
\<close>

lemma specRecurrence_nth:
  "j < length vs \<Longrightarrow>
   specRecurrence k e vs ! j =
     jsadd (jsmul (vs ! j) k)
           (jsmul (if j = 0 then e else specRecurrence k e vs ! (j - 1)) (jssub (Num 1) k))"
proof (induction vs arbitrary: e j)
  case Nil
  then show ?case by simp
next
  case (Cons v vs)
  show ?case
  proof (cases j)
    case 0
    then show ?thesis by (simp add: Let_def)
  next
    case (Suc j')
    then have "j' < length vs" using Cons.prems by simp
    then show ?thesis
      using Cons.IH [of j' "jsadd (jsmul v k) (jsmul e (jssub (Num 1) k))"] Suc
      by (simp add: Let_def)
  qed
qed

lemma specEMA_before_seed:
  "0 < P \<Longrightarrow> P \<le> length vs \<Longrightarrow> i < P - 1 \<Longrightarrow> specEMA vs P ! i = NaN"
  by (simp add: specEMA_def nth_append)

lemma specEMA_seed:
  "0 < P \<Longrightarrow> P \<le> length vs \<Longrightarrow> specEMA vs P ! (P - 1) = simpleAverage (take P vs)"
  by (simp add: specEMA_def nth_append)

lemma specEMA_step:
  assumes P0: "0 < P" and i: "P \<le> i" "i < length vs"
  shows "specEMA vs P ! i =
           jsadd (jsmul (vs ! i) (Num (2 / (real P + 1))))
                 (jsmul (specEMA vs P ! (i - 1)) (jssub (Num 1) (Num (2 / (real P + 1)))))"
proof -
  define k where "k = Num (2 / (real P + 1))"
  define seed where "seed = simpleAverage (take P vs)"
  define rest where "rest = specRecurrence k seed (drop P vs)"
  have e: "specEMA vs P = replicate (P - 1) NaN @ seed # rest"
    using i P0 by (simp add: specEMA_def k_def seed_def rest_def)
  have j: "i - P < length (drop P vs)" using i by simp
  have a: "\<not> i < P - 1" and b: "i - (P - 1) = Suc (i - P)"
    and a': "\<not> i - 1 < P - 1" and b': "i - 1 - (P - 1) = i - P"
    using P0 i by simp_all
  have cur: "specEMA vs P ! i = rest ! (i - P)"
    by (simp only: e nth_append length_replicate a if_False b nth_Cons_Suc)
  have prev: "specEMA vs P ! (i - 1) = (if i - P = 0 then seed else rest ! (i - P - 1))"
    by (simp only: e nth_append length_replicate a' if_False b' nth_Cons')
  have "rest ! (i - P) =
     jsadd (jsmul (drop P vs ! (i - P)) k)
           (jsmul (if i - P = 0 then seed else rest ! (i - P - 1)) (jssub (Num 1) k))"
    unfolding rest_def by (rule specRecurrence_nth [OF j])
  then show ?thesis
    using i unfolding cur prev k_def by simp
qed

lemma length_specRecurrence: "length (specRecurrence k e vs) = length vs"
  by (induction vs arbitrary: e) (simp_all add: Let_def)

lemma calculateEMA_refines_specEMA:
  assumes P0: "0 < P" and ok: "\<forall>c\<in>set cs. \<not> isNaN (close c)"
  shows "calculateEMA cs P = specEMA (map close cs) P"
proof (cases "length cs < P")
  case True
  then show ?thesis by (simp add: calculateEMA_short specEMA_def)
next
  case False
  then have P: "P \<le> length cs" by simp
  have eq: "i < length cs \<Longrightarrow> calculateEMA cs P ! i = specEMA (map close cs) P ! i" for i
  proof (induction i)
    case 0
    show ?case
    proof (cases "P = 1")
      case True
      then show ?thesis
        using calculateEMA_seed [OF P0 P] specEMA_seed [of P "map close cs"] P
        by (simp add: take_map)
    next
      case False
      then have "0 < P - 1" using P0 by simp
      then show ?thesis
        using calculateEMA_before_seed [OF P0 P, of 0] specEMA_before_seed [of P "map close cs" 0] P0 P
        by simp
    qed
  next
    case (Suc i)
    consider "Suc i < P - 1" | "Suc i = P - 1" | "P \<le> Suc i" by linarith
    then show ?case
    proof cases
      case 1
      then show ?thesis
        using calculateEMA_before_seed [OF P0 P, of "Suc i"]
          specEMA_before_seed [of P "map close cs" "Suc i"] P0 P
        by simp
    next
      case 2
      then show ?thesis
        using calculateEMA_seed [OF P0 P] specEMA_seed [of P "map close cs"] P0 P
        by (simp add: take_map)
    next
      case 3
      have d: "\<not> isNaN (calculateEMA cs P ! i)"
        using calculateEMA_defined [OF P0 ok, of i] 3 Suc.prems by simp
      have "calculateEMA cs P ! Suc i =
              jsadd (jsmul (close (cs ! Suc i)) (Num (2 / (real P + 1))))
                    (jsmul (calculateEMA cs P ! i) (jssub (Num 1) (Num (2 / (real P + 1)))))"
        using calculateEMA_step [OF P0 3 Suc.prems] d by simp
      moreover have "specEMA (map close cs) P ! Suc i =
              jsadd (jsmul (close (cs ! Suc i)) (Num (2 / (real P + 1))))
                    (jsmul (specEMA (map close cs) P ! i) (jssub (Num 1) (Num (2 / (real P + 1)))))"
        using specEMA_step [OF P0 3, of "map close cs"] Suc.prems by simp
      moreover have "calculateEMA cs P ! i = specEMA (map close cs) P ! i"
        using Suc.IH Suc.prems by simp
      ultimately show ?thesis by simp
    qed
  qed
  have "length (specEMA (map close cs) P) = length cs"
    using P0 P by (simp add: specEMA_def length_specRecurrence)
  then show ?thesis
    using eq calculateEMA_length [OF P0, of cs] by (simp add: list_eq_iff_nth_eq)
qed

text \<open>
  Claim C1, amended. For every period \<open>P \<ge> 1\<close>, \<^verbatim>\<open>calculateEMA\<close> returns one value per
  candle. With fewer than \<open>P\<close> candles every value is \<open>NaN\<close>. Otherwise the values before
  index \<open>P - 1\<close> are \<open>NaN\<close>, the value at \<open>P - 1\<close> is the simple average of the first
  \<open>P\<close> closes, and for every \<open>i \<ge> P\<close> the value is \<open>close[i] * k + ema[i-1] * (1 - k)\<close>
  with \<open>k = 2 / (P + 1)\<close> when \<open>ema[i-1]\<close> is a number, and \<open>close[i]\<close> itself when
  \<open>ema[i-1]\<close> is \<open>NaN\<close>. When no close is \<open>NaN\<close>, every value from index \<open>P - 1\<close> on is
  a number, so that only the recurrence applies, and the array is the one that the rule of the
  specification gives on the closes.
\<close>

theorem calculateEMA_values:
  assumes "0 < P"
  shows "length (calculateEMA cs P) = length cs
     \<and> (length cs < P \<longrightarrow> (\<forall>i<length cs. calculateEMA cs P ! i = NaN))
     \<and> (P \<le> length cs \<longrightarrow>
          (\<forall>i<P - 1. calculateEMA cs P ! i = NaN)
        \<and> calculateEMA cs P ! (P - 1) = simpleAverage (map close (take P cs))
        \<and> (\<forall>i. P \<le> i \<and> i < length cs \<longrightarrow>
              calculateEMA cs P ! i =
                (if isNaN (calculateEMA cs P ! (i - 1)) then close (cs ! i)
                 else jsadd (jsmul (close (cs ! i)) (Num (2 / (real P + 1))))
                            (jsmul (calculateEMA cs P ! (i - 1)) (Num (1 - 2 / (real P + 1))))))
        \<and> ((\<forall>c\<in>set cs. \<not> isNaN (close c)) \<longrightarrow>
              (\<forall>i. P - 1 \<le> i \<and> i < length cs \<longrightarrow> \<not> isNaN (calculateEMA cs P ! i))))
     \<and> ((\<forall>c\<in>set cs. \<not> isNaN (close c)) \<longrightarrow> calculateEMA cs P = specEMA (map close cs) P)"
proof -
  have a: "length (calculateEMA cs P) = length cs"
    by (rule calculateEMA_length [OF assms])
  have b: "length cs < P \<longrightarrow> (\<forall>i<length cs. calculateEMA cs P ! i = NaN)"
    by (simp add: calculateEMA_short)
  have c: "P \<le> length cs \<longrightarrow> (\<forall>i<P - 1. calculateEMA cs P ! i = NaN)"
    using calculateEMA_before_seed [OF assms] by blast
  have d: "P \<le> length cs \<longrightarrow> calculateEMA cs P ! (P - 1) = simpleAverage (map close (take P cs))"
    using calculateEMA_seed [OF assms] by blast
  have e: "\<forall>i. P \<le> i \<and> i < length cs \<longrightarrow>
              calculateEMA cs P ! i =
                (if isNaN (calculateEMA cs P ! (i - 1)) then close (cs ! i)
                 else jsadd (jsmul (close (cs ! i)) (Num (2 / (real P + 1))))
                            (jsmul (calculateEMA cs P ! (i - 1)) (Num (1 - 2 / (real P + 1)))))"
    using calculateEMA_step [OF assms] by simp
  have f: "(\<forall>c\<in>set cs. \<not> isNaN (close c)) \<longrightarrow>
              (\<forall>i. P - 1 \<le> i \<and> i < length cs \<longrightarrow> \<not> isNaN (calculateEMA cs P ! i))"
    using calculateEMA_defined [OF assms] by blast
  have g: "(\<forall>c\<in>set cs. \<not> isNaN (close c)) \<longrightarrow> calculateEMA cs P = specEMA (map close cs) P"
    using calculateEMA_refines_specEMA [OF assms] by blast
  show ?thesis using a b c d e f g by blast
qed

text \<open>
  Claim C1, as stated, fails at two inputs. With the closes \<open>NaN, 5\<close> and the period 1 the
  value at index 1 is the close 5 (the fall-back of the code for a previous value that is
  \<open>NaN\<close>), where the recurrence gives \<open>NaN\<close>. With the period 0 a window of one candle gets
  two values.
\<close>

theorem calculateEMA_values_counterexample:
  "calculateEMA [candleAt 1 NaN, candleAt 2 (Num 5)] 1 = [NaN, Num 5]
   \<and> jsadd (jsmul (Num 5) (Num (2 / (1 + 1)))) (jsmul NaN (Num (1 - 2 / (1 + 1)))) = NaN
   \<and> length (calculateEMA [candleAt 1 (Num 7)] 0) = 2"
  by (simp add: calculateEMA_def Let_def emaStep_def readAt_def candleAt_def upt_rec
        eval_nat_numeral nth_append)

text \<open>
  The witness is the scenario of the claim: the period 3 over the closes 1, 2, 3, 4, 5 gives
  \<open>NaN, NaN, 2, 3, 4\<close>, derived from the theorem (seed \<open>(1 + 2 + 3) / 3\<close>, then
  \<open>k = 1/2\<close>).
\<close>

theorem calculateEMA_values_witness:
  "(0::nat) < 3 \<and> 3 \<le> length exampleWindow
   \<and> map close exampleWindow = [Num 1, Num 2, Num 3, Num 4, Num 5]
   \<and> length (calculateEMA exampleWindow 3) = 5
   \<and> calculateEMA exampleWindow 3 ! 0 = NaN
   \<and> calculateEMA exampleWindow 3 ! 1 = NaN
   \<and> calculateEMA exampleWindow 3 ! 2 = Num 2
   \<and> calculateEMA exampleWindow 3 ! 3 = Num 3
   \<and> calculateEMA exampleWindow 3 ! 4 = Num 4"
proof -
  let ?e = "calculateEMA exampleWindow 3"
  have len: "length exampleWindow = 5"
    and ok: "\<forall>c\<in>set exampleWindow. \<not> isNaN (close c)"
    and c3: "close (exampleWindow ! 3) = Num 4"
    and c4: "close (exampleWindow ! 4) = Num 5"
    and avg: "simpleAverage (map close (take 3 exampleWindow)) = Num 2"
    by (simp_all add: exampleWindow_def candleAt_def simpleAverage_def)
  note t = calculateEMA_values [of 3 exampleWindow]
  have l: "length ?e = 5" using t len by simp
  have e0: "?e ! 0 = NaN" and e1: "?e ! 1 = NaN" using t len by simp_all
  have e2: "?e ! 2 = Num 2" using t len avg by simp
  have "?e ! 3 = (if isNaN (?e ! (3 - 1)) then close (exampleWindow ! 3)
                  else jsadd (jsmul (close (exampleWindow ! 3)) (Num (2 / (real 3 + 1))))
                             (jsmul (?e ! (3 - 1)) (Num (1 - 2 / (real 3 + 1)))))"
    using t len by simp
  then have e3: "?e ! 3 = Num 3" using e2 c3 by simp
  have "?e ! 4 = (if isNaN (?e ! (4 - 1)) then close (exampleWindow ! 4)
                  else jsadd (jsmul (close (exampleWindow ! 4)) (Num (2 / (real 3 + 1))))
                             (jsmul (?e ! (4 - 1)) (Num (1 - 2 / (real 3 + 1)))))"
    using t len by simp
  then have e4: "?e ! 4 = Num 4" using e3 c4 by simp
  have cl: "map close exampleWindow = [Num 1, Num 2, Num 3, Num 4, Num 5]"
    by (simp add: exampleWindow_def candleAt_def)
  show ?thesis using len cl l e0 e1 e2 e3 e4 by simp
qed

section \<open>The MACD triple\<close>


































section \<open>The candle window\<close>

lemma enrich_length: "length (enrichCandlesWithIndicators cs cfg) = length cs"
  by (simp add: enrichCandlesWithIndicators_def Let_def split: prod.splits)

lemma enrich_ohlcv: "map ohlcv (enrichCandlesWithIndicators cs cfg) = map ohlcv cs"
proof (rule nth_equalityI)
  show "length (map ohlcv (enrichCandlesWithIndicators cs cfg)) = length (map ohlcv cs)"
    by (simp add: enrich_length)
next
  fix i
  assume "i < length (map ohlcv (enrichCandlesWithIndicators cs cfg))"
  then have i: "i < length cs" by (simp add: enrich_length)
  then have "cs \<noteq> []" by auto
  then have "ohlcv (enrichCandlesWithIndicators cs cfg ! i) = ohlcv (cs ! i)"
    using i by (simp add: enrichCandlesWithIndicators_def Let_def ohlcv_def split: prod.splits)
  then show "map ohlcv (enrichCandlesWithIndicators cs cfg) ! i = map ohlcv cs ! i"
    using i by (simp add: enrich_length)
qed

lemma time_ohlcv: "map time cs = map fst (map ohlcv cs)"
  by (simp add: ohlcv_def)

lemma enrich_time: "map time (enrichCandlesWithIndicators cs cfg) = map time cs"
  by (simp only: time_ohlcv enrich_ohlcv)

lemma update_last: "cs \<noteq> [] \<Longrightarrow> cs[length cs - Suc 0 := x] = butlast cs @ [x]"
  by (cases cs rule: rev_cases) simp_all

lemma updateCandles_eq:
  "updateCandles cs newCandle =
     drop (length (if cs \<noteq> [] \<and> time (last cs) = time newCandle
                   then butlast cs @ [newCandle] else cs @ [newCandle]) - 550)
          (if cs \<noteq> [] \<and> time (last cs) = time newCandle
           then butlast cs @ [newCandle] else cs @ [newCandle])"
  by (auto simp add: updateCandles_def Let_def update_last)

lemma sorted_replace_last:
  assumes "sorted_wrt (<) (map time cs)" and "cs \<noteq> []" and "time (last cs) = time c"
  shows "sorted_wrt (<) (map time (butlast cs @ [c]))"
proof -
  have "map time (butlast cs @ [c]) = map time (butlast cs @ [last cs])"
    using assms(3) by simp
  then show ?thesis using assms(1,2) by simp
qed

lemma sorted_push:
  assumes s: "sorted_wrt (<) (map time cs)"
    and le: "cs \<noteq> [] \<longrightarrow> time (last cs) \<le> time c"
    and ne: "\<not> (cs \<noteq> [] \<and> time (last cs) = time c)"
  shows "sorted_wrt (<) (map time (cs @ [c]))"
proof (cases "cs = []")
  case True
  then show ?thesis by simp
next
  case False
  then have lt: "time (last cs) < time c" using le ne by simp
  have "\<forall>x\<in>set cs. time x < time c"
  proof
    fix x assume x: "x \<in> set cs"
    obtain ys where ys: "cs = ys @ [last cs]"
      using False by (metis append_butlast_last_id)
    have "sorted_wrt (<) (map time ys @ [time (last cs)])"
      using s ys by (metis list.simps(8,9) map_append)
    then have "\<forall>y\<in>set ys. time y < time (last cs)"
      by (simp add: sorted_wrt_append)
    then have "time x \<le> time (last cs)"
      using x ys by (metis (no_types, lifting) Un_iff empty_iff empty_set insert_iff less_imp_le
          list.simps(15) order_refl set_append)
    then show "time x < time c" using lt by simp
  qed
  then show ?thesis using s by (simp add: sorted_wrt_append)
qed

lemma updateCandles_sorted:
  assumes "sorted_wrt (<) (map time cs)" and "cs \<noteq> [] \<longrightarrow> time (last cs) \<le> time newCandle"
  shows "sorted_wrt (<) (map time (updateCandles cs newCandle))"
proof -
  have "sorted_wrt (<) (map time (if cs \<noteq> [] \<and> time (last cs) = time newCandle
           then butlast cs @ [newCandle] else cs @ [newCandle]))"
    using assms sorted_replace_last [of cs newCandle] sorted_push [of cs newCandle]
    by (simp del: map_append map_butlast)
  then show ?thesis
    unfolding updateCandles_eq drop_map [symmetric] by (rule sorted_wrt_drop)
qed

lemma updateCandles_length: "length (updateCandles cs newCandle) \<le> 550"
  by (simp add: updateCandles_def Let_def)

lemma updateCandles_nonempty: "updateCandles cs newCandle \<noteq> []"
  by (auto simp add: updateCandles_def Let_def)


text \<open>
  The loop over the runtimes writes the registry only at the ids of the runtimes whose
  stream matches; sending the actions does not write it.
\<close>

lemma sendWebhook_ref:
  "latestStrategiesRef (sendWebhook env p sid sn app) = latestStrategiesRef app"
  by (simp add: sendWebhook_def Let_def split: option.splits)

lemma sendAll_ref: "latestStrategiesRef (sendAll envs as sid sn app) = latestStrategiesRef app"
proof -
  have "latestStrategiesRef (foldl (\<lambda>a (j, p). sendWebhook (envs j) p sid sn a) app xs)
          = latestStrategiesRef app" for xs
    by (induction xs arbitrary: app) (simp_all add: sendWebhook_ref split: prod.splits)
  then show ?thesis by (simp add: sendAll_def)
qed

lemma forEachRuntime_ref:
  "latestStrategiesRef (fst (forEachRuntime ev envs streamName newCandle (app, u, h) r)) =
     (if targetStream r = streamName
      then AList.update (StrategyConfig.id (config r)) (fst (nextRuntime ev newCandle r))
             (latestStrategiesRef app)
      else latestStrategiesRef app)"
  by (simp add: forEachRuntime_def Let_def sendAll_ref split: prod.splits)

lemma foldl_forEachRuntime_ref:
  "latestStrategiesRef (fst (foldl (forEachRuntime ev envs streamName newCandle) (app, u, h) rs)) =
     foldl (\<lambda>m r. if targetStream r = streamName
                   then AList.update (StrategyConfig.id (config r)) (fst (nextRuntime ev newCandle r)) m
                   else m)
           (latestStrategiesRef app) rs"
proof (induction rs arbitrary: app u h)
  case Nil
  show ?case by simp
next
  case (Cons r rs)
  obtain app' u' h' where s: "forEachRuntime ev envs streamName newCandle (app, u, h) r = (app', u', h')"
    by (cases "forEachRuntime ev envs streamName newCandle (app, u, h) r") auto
  have "latestStrategiesRef app' =
     (if targetStream r = streamName
      then AList.update (StrategyConfig.id (config r)) (fst (nextRuntime ev newCandle r))
             (latestStrategiesRef app)
      else latestStrategiesRef app)"
    using forEachRuntime_ref [of ev envs streamName newCandle app u h r] s by simp
  then show ?case
    by (simp add: s Cons.IH)
qed

lemma processGlobalRealtimeCandle_ref:
  "latestStrategiesRef (processGlobalRealtimeCandle ev envs streamName newCandle app) =
     foldl (\<lambda>m r. if targetStream r = streamName
                   then AList.update (StrategyConfig.id (config r)) (fst (nextRuntime ev newCandle r)) m
                   else m)
           (latestStrategiesRef app) (map snd (latestStrategiesRef app))"
proof -
  obtain app' u' h' where s:
    "foldl (forEachRuntime ev envs streamName newCandle) (app, [], False) (map snd (latestStrategiesRef app))
       = (app', u', h')"
    by (cases "foldl (forEachRuntime ev envs streamName newCandle) (app, [], False) (map snd (latestStrategiesRef app))") auto
  have "latestStrategiesRef (processGlobalRealtimeCandle ev envs streamName newCandle app)
          = latestStrategiesRef app'"
    by (simp add: processGlobalRealtimeCandle_def Let_def s)
  then show ?thesis
    using foldl_forEachRuntime_ref [of ev envs streamName newCandle app "[]" False "map snd (latestStrategiesRef app)"] s
    by simp
qed

lemma foldl_update_lookup:
  assumes "\<forall>r\<in>set rs. StrategyConfig.id (config r) = k \<longrightarrow> r = rt"
    and "StrategyConfig.id (config rt) = k"
  shows "map_of (foldl (\<lambda>m r. if targetStream r = streamName
                   then AList.update (StrategyConfig.id (config r)) (f r) m
                   else m) m rs) k =
           (if rt \<in> set rs \<and> targetStream rt = streamName then Some (f rt) else map_of m k)"
  using assms(1)
proof (induction rs arbitrary: m)
  case Nil
  show ?case by simp
next
  case (Cons r rs)
  then have IH: "\<And>m. map_of (foldl (\<lambda>m r. if targetStream r = streamName
                   then AList.update (StrategyConfig.id (config r)) (f r) m
                   else m) m rs) k =
           (if rt \<in> set rs \<and> targetStream rt = streamName then Some (f rt) else map_of m k)"
    by simp
  show ?case
  proof (cases "StrategyConfig.id (config r) = k")
    case True
    then have "r = rt" using Cons.prems by simp
    then show ?thesis using assms(2) by (simp add: IH update_conv')
  next
    case False
    then have "r \<noteq> rt" using assms(2) by auto
    then show ?thesis using False by (simp add: IH update_conv')
  qed
qed

lemma processGlobalRealtimeCandle_runtime:
  assumes look: "map_of (latestStrategiesRef app) k = Some rt"
    and dist: "distinct (map fst (latestStrategiesRef app))"
    and ids: "\<forall>(k', r)\<in>set (latestStrategiesRef app). StrategyConfig.id (config r) = k'"
    and str: "targetStream rt = streamName"
  shows "map_of (latestStrategiesRef (processGlobalRealtimeCandle ev envs streamName newCandle app)) k
           = Some (fst (nextRuntime ev newCandle rt))"
proof -
  have mem: "(k, rt) \<in> set (latestStrategiesRef app)"
    using look by (rule map_of_SomeD)
  then have id: "StrategyConfig.id (config rt) = k" using ids by auto
  have rt: "rt \<in> set (map snd (latestStrategiesRef app))"
    using mem by force
  have uniq: "\<forall>r\<in>set (map snd (latestStrategiesRef app)). StrategyConfig.id (config r) = k \<longrightarrow> r = rt"
  proof (intro ballI impI)
    fix r assume r: "r \<in> set (map snd (latestStrategiesRef app))" and rk: "StrategyConfig.id (config r) = k"
    then obtain k' where "(k', r) \<in> set (latestStrategiesRef app)" by auto
    then have "(k, r) \<in> set (latestStrategiesRef app)" using ids rk by auto
    then have "map_of (latestStrategiesRef app) k = Some r"
      using dist by simp
    then show "r = rt" using look by simp
  qed
  show ?thesis
    using rt str
    by (simp only: processGlobalRealtimeCandle_ref foldl_update_lookup [OF uniq id] if_True simp_thms)
qed

lemma nextRuntime_candles:
  "candles (fst (nextRuntime ev newCandle rt)) =
     enrichCandlesWithIndicators (updateCandles (candles rt) newCandle)
       (Some (StrategyConfig.macdFast (config rt), StrategyConfig.macdSlow (config rt),
              StrategyConfig.macdSignal (config rt)))"
  by (simp add: nextRuntime_def Let_def)

text \<open>
  Claim C3. Let the registry hold each runtime under its own id, and let \<open>rt\<close> be a
  runtime whose stream is the one of the incoming candle, whose window is strictly increasing
  by time and whose last candle is not later than the incoming one. After
  \<^verbatim>\<open>processGlobalRealtimeCandle\<close> the window of that runtime has the feed fields of \<open>w\<close> cut
  to its last 550 entries, where \<open>w\<close> is the old window with its last candle replaced by
  the incoming one when the two times are equal, and with the incoming candle appended
  otherwise; the new window has at most 550 candles and is again strictly increasing by time.
\<close>

theorem applying_bar_window:
  assumes "map_of (latestStrategiesRef app) k = Some rt"
    and "distinct (map fst (latestStrategiesRef app))"
    and "\<forall>(k', r)\<in>set (latestStrategiesRef app). StrategyConfig.id (config r) = k'"
    and "targetStream rt = streamName"
    and "sorted_wrt (<) (map time (candles rt))"
    and "candles rt \<noteq> [] \<longrightarrow> time (last (candles rt)) \<le> time newCandle"
    and "w = (if candles rt \<noteq> [] \<and> time (last (candles rt)) = time newCandle
              then butlast (candles rt) @ [newCandle] else candles rt @ [newCandle])"
  shows "\<exists>rt'. map_of (latestStrategiesRef
                          (processGlobalRealtimeCandle ev envs streamName newCandle app)) k = Some rt'
     \<and> map ohlcv (candles rt') = map ohlcv (drop (length w - 550) w)
     \<and> length (candles rt') \<le> 550
     \<and> sorted_wrt (<) (map time (candles rt'))"
proof -
  let ?rt' = "fst (nextRuntime ev newCandle rt)"
  have a: "map_of (latestStrategiesRef (processGlobalRealtimeCandle ev envs streamName newCandle app)) k
             = Some ?rt'"
    by (rule processGlobalRealtimeCandle_runtime [OF assms(1-4)])
  have b: "map ohlcv (candles ?rt') = map ohlcv (drop (length w - 550) w)"
    by (simp only: nextRuntime_candles enrich_ohlcv updateCandles_eq assms(7))
  have c: "length (candles ?rt') \<le> 550"
    by (simp add: nextRuntime_candles enrich_length updateCandles_length)
  have d: "sorted_wrt (<) (map time (candles ?rt'))"
    using updateCandles_sorted [OF assms(5,6)]
    by (simp only: nextRuntime_candles enrich_time)
  show ?thesis using a b c d by blast
qed


text \<open>
  The witness: on a window with the times 1 and 2, a candle at time 2 replaces the last
  bar and a candle at time 3 is appended.
\<close>

theorem applying_bar_window_witness:
  "map_of (latestStrategiesRef (exampleApp exampleWatching)) ''default'' = Some exampleWatching
   \<and> latestStrategiesRef (exampleApp exampleWatching) = [(''default'', exampleWatching)]
   \<and> StrategyConfig.id (config exampleWatching) = ''default''
   \<and> targetStream exampleWatching = ''btcusdt@kline_1m''
   \<and> map time (candles exampleWatching) = [1, 2]
   \<and> (\<exists>rt'. map_of (latestStrategiesRef
                       (processGlobalRealtimeCandle idleEngine exampleEnvs ''btcusdt@kline_1m''
                          (candleAt 2 (Num 105)) (exampleApp exampleWatching))) ''default'' = Some rt'
          \<and> map ohlcv (candles rt') = [ohlcv (candleAt 1 (Num 100)), ohlcv (candleAt 2 (Num 105))]
          \<and> sorted_wrt (<) (map time (candles rt')))
   \<and> (\<exists>rt'. map_of (latestStrategiesRef
                       (processGlobalRealtimeCandle idleEngine exampleEnvs ''btcusdt@kline_1m''
                          (candleAt 3 (Num 105)) (exampleApp exampleWatching))) ''default'' = Some rt'
          \<and> map ohlcv (candles rt') = [ohlcv (candleAt 1 (Num 100)), ohlcv (candleAt 2 (Num 101)),
                                        ohlcv (candleAt 3 (Num 105))]
          \<and> sorted_wrt (<) (map time (candles rt')))"
proof -
  let ?app = "exampleApp exampleWatching"
  have r: "latestStrategiesRef ?app = [(''default'', exampleWatching)]"
    by (simp add: exampleApp_def)
  have h1: "map_of (latestStrategiesRef ?app) ''default'' = Some exampleWatching"
    and h2: "distinct (map fst (latestStrategiesRef ?app))"
    by (simp_all add: r)
  have i: "StrategyConfig.id (config exampleWatching) = ''default''"
    by (simp add: exampleWatching_def exampleRuntime_def exampleConfig_def)
  have h3: "\<forall>(k', r)\<in>set (latestStrategiesRef ?app). StrategyConfig.id (config r) = k'"
    by (simp add: r i)
  have h4: "targetStream exampleWatching = ''btcusdt@kline_1m''"
    by code_simp
  have cs: "candles exampleWatching = [candleAt 1 (Num 100), candleAt 2 (Num 101)]"
    by (simp add: exampleWatching_def)
  have ts: "map time (candles exampleWatching) = [1, 2]"
    by (simp add: cs candleAt_def)
  have h5: "sorted_wrt (<) (map time (candles exampleWatching))"
    by (simp add: ts)
  have h6: "candles exampleWatching \<noteq> [] \<longrightarrow> time (last (candles exampleWatching)) \<le> time (candleAt 2 (Num 105))"
    and h6': "candles exampleWatching \<noteq> [] \<longrightarrow> time (last (candles exampleWatching)) \<le> time (candleAt 3 (Num 105))"
    by (simp_all add: cs candleAt_def)
  have w: "[candleAt 1 (Num 100), candleAt 2 (Num 105)] =
      (if candles exampleWatching \<noteq> [] \<and> time (last (candles exampleWatching)) = time (candleAt 2 (Num 105))
       then butlast (candles exampleWatching) @ [candleAt 2 (Num 105)]
       else candles exampleWatching @ [candleAt 2 (Num 105)])"
    and w': "[candleAt 1 (Num 100), candleAt 2 (Num 101), candleAt 3 (Num 105)] =
      (if candles exampleWatching \<noteq> [] \<and> time (last (candles exampleWatching)) = time (candleAt 3 (Num 105))
       then butlast (candles exampleWatching) @ [candleAt 3 (Num 105)]
       else candles exampleWatching @ [candleAt 3 (Num 105)])"
    by (simp_all add: cs candleAt_def)
  have a: "\<exists>rt'. map_of (latestStrategiesRef
                       (processGlobalRealtimeCandle idleEngine exampleEnvs ''btcusdt@kline_1m''
                          (candleAt 2 (Num 105)) ?app)) ''default'' = Some rt'
          \<and> map ohlcv (candles rt') = [ohlcv (candleAt 1 (Num 100)), ohlcv (candleAt 2 (Num 105))]
          \<and> sorted_wrt (<) (map time (candles rt'))"
    using applying_bar_window [OF h1 h2 h3 h4 h5 h6 w, of idleEngine exampleEnvs] by auto
  have b: "\<exists>rt'. map_of (latestStrategiesRef
                       (processGlobalRealtimeCandle idleEngine exampleEnvs ''btcusdt@kline_1m''
                          (candleAt 3 (Num 105)) ?app)) ''default'' = Some rt'
          \<and> map ohlcv (candles rt') = [ohlcv (candleAt 1 (Num 100)), ohlcv (candleAt 2 (Num 101)),
                                        ohlcv (candleAt 3 (Num 105))]
          \<and> sorted_wrt (<) (map time (candles rt'))"
    using applying_bar_window [OF h1 h2 h3 h4 h5 h6' w', of idleEngine exampleEnvs] by auto
  show ?thesis using h1 r i h4 ts a b by blast
qed

section \<open>The dispatcher and the manual override\<close>

lemma sendWebhook_frame:
  "latestStrategiesRef (sendWebhook env p sid sn app) = latestStrategiesRef app
   \<and> strategies (sendWebhook env p sid sn app) = strategies app
   \<and> activeStrategyId (sendWebhook env p sid sn app) = activeStrategyId app"
  by (simp add: sendWebhook_def Let_def split: option.splits)

lemma sendWebhook_logs:
  "logs (sendWebhook env p sid sn app) =
     \<lparr> AlertLog.id = randomId env, strategyId = sid, strategyName = sn,
       AlertLog.timestamp = dateNow env, payload = p, status = ''sent'',
       type = (if tp_level p = ''Manual'' then ''Manual'' else ''Strategy'') \<rparr> # logs app"
  by (simp add: sendWebhook_def Let_def split: option.splits)

lemma sendWebhook_fetched:
  "fetched (sendWebhook env p sid sn app) =
     fetched app @ (case map_of (latestStrategiesRef app) sid of
                      None \<Rightarrow> []
                    | Some rt \<Rightarrow> if StrategyConfig.webhookUrl (config rt) = [] then []
                                 else [(StrategyConfig.webhookUrl (config rt), p)])"
  by (simp add: sendWebhook_def Let_def split: option.splits)

lemma sendWebhook_console:
  "console (sendWebhook env p sid sn app) =
     console app @ (case map_of (latestStrategiesRef app) sid of
                      None \<Rightarrow> []
                    | Some rt \<Rightarrow> if StrategyConfig.webhookUrl (config rt) \<noteq> [] \<and> fetchThrows env
                                 then [''Webhook Error''] else [])"
  by (simp add: sendWebhook_def Let_def split: option.splits)

lemma handleManualOrder_runtime:
  assumes "map_of (latestStrategiesRef app) (activeStrategyId app) = Some rt"
  shows "map_of (latestStrategiesRef (handleManualOrder now env ty app)) (activeStrategyId app)
         = Some (rt\<lparr> positionState :=
                       (if ty = FLAT then INITIAL_POS_STATE
                        else \<lparr> direction = ty,
                               initialQuantity = (if jsgt0 (js_or (lastPrice rt) (Num 0)) then jsdiv (StrategyConfig.tradeAmount (config rt)) (js_or (lastPrice rt) (Num 0)) else Num 0),
                               remainingQuantity = (if jsgt0 (js_or (lastPrice rt) (Num 0)) then jsdiv (StrategyConfig.tradeAmount (config rt)) (js_or (lastPrice rt) (Num 0)) else Num 0),
                               entryPrice = js_or (lastPrice rt) (Num 0),
                               highestPrice = (if ty = LONG then js_or (lastPrice rt) (Num 0) else Num 0),
                               lowestPrice = (if ty = SHORT then js_or (lastPrice rt) (Num 0) else Num 0),
                               openTime = getTime now, tpLevelsHit = [], slLevelsHit = [] \<rparr>),
                     tradeStats :=
                       (if ty = FLAT then tradeStats rt
                        else (tradeStats rt)\<lparr> dailyTradeCount := dailyTradeCount (tradeStats rt) + 1 \<rparr>) \<rparr>)"
  using assms
  by (cases ty) (simp_all add: handleManualOrder_def Let_def sendWebhook_frame update_conv')


lemma handleManualOrder_payload:
  assumes "map_of (latestStrategiesRef app) (activeStrategyId app) = Some rt"
  shows "logs (handleManualOrder now env ty app) \<noteq> []
     \<and> tl (logs (handleManualOrder now env ty app)) = logs app
     \<and> payload (hd (logs (handleManualOrder now env ty app))) =
         \<lparr> WebhookPayload.secret = StrategyConfig.secret (config rt),
           action = (case ty of LONG \<Rightarrow> ''buy'' | SHORT \<Rightarrow> ''sell''
                     | FLAT \<Rightarrow> if direction (positionState rt) = LONG then ''sell'' else ''buy_to_cover''),
           position = (case ty of LONG \<Rightarrow> ''long'' | SHORT \<Rightarrow> ''short'' | FLAT \<Rightarrow> ''flat''),
           WebhookPayload.symbol = StrategyConfig.symbol (config rt),
           trade_amount = (if ty = FLAT
                           then jsmul (remainingQuantity (positionState rt)) (js_or (lastPrice rt) (Num 0))
                           else StrategyConfig.tradeAmount (config rt)),
           leverage = 5,
           WebhookPayload.timestamp = toISOString now,
           tv_exchange = ''BINANCE'', strategy_name = ''Manual_Override'',
           tp_level = manualLabel,
           execution_price = js_or (lastPrice rt) (Num 0),
           execution_quantity = (if ty = FLAT then remainingQuantity (positionState rt)
                                 else if jsgt0 (js_or (lastPrice rt) (Num 0))
                                      then jsdiv (StrategyConfig.tradeAmount (config rt)) (js_or (lastPrice rt) (Num 0))
                                      else Num 0) \<rparr>"
  using assms
  by (cases ty) (simp_all add: handleManualOrder_def Let_def sendWebhook_logs)

lemma handleManualOrder_fetched:
  assumes "map_of (latestStrategiesRef app) (activeStrategyId app) = Some rt"
  shows "fetched (handleManualOrder now env ty app) =
     fetched app @ (if StrategyConfig.webhookUrl (config rt) = [] then []
                    else [(StrategyConfig.webhookUrl (config rt),
                           payload (hd (logs (handleManualOrder now env ty app))))])"
  using assms
  by (cases ty) (simp_all add: handleManualOrder_def Let_def sendWebhook_logs sendWebhook_fetched update_conv')

lemma js_or_zero_not_pos: "\<not> jsgt0 x \<Longrightarrow> \<not> jsgt0 (js_or x (Num 0))"
  by (cases x) auto

lemma js_or_zero_Num: "\<exists>p. js_or x (Num 0) = Num p"
  by (cases x) auto

text \<open>
  Claim C4. A manual override on an existing active strategy emits exactly one action: one
  log entry is added in front of the old logs, with the payload of the order, tagged
  \<open>Manual_Override\<close>, and that payload is handed to \<^verbatim>\<open>fetch\<close> exactly once when the
  strategy has a webhook URL (and not at all when it has none). An override to LONG or SHORT adds exactly 1 to
  \<open>dailyTradeCount\<close>, whatever \<open>maxDailyTrades\<close> is (the handler never reads it); an
  override to FLAT leaves \<open>dailyTradeCount\<close> as it is and emits the position's whole
  \<open>remainingQuantity\<close> as \<open>execution_quantity\<close>.
\<close>

theorem manual_override_emits_once:
  assumes "map_of (latestStrategiesRef app) (activeStrategyId app) = Some rt"
  shows "length (logs (handleManualOrder now env ty app)) = Suc (length (logs app))
     \<and> tl (logs (handleManualOrder now env ty app)) = logs app
     \<and> strategy_name (payload (hd (logs (handleManualOrder now env ty app)))) = ''Manual_Override''
     \<and> length (fetched (handleManualOrder now env ty app)) \<le> Suc (length (fetched app))
     \<and> (\<exists>rt'. map_of (latestStrategiesRef (handleManualOrder now env ty app)) (activeStrategyId app) = Some rt'
            \<and> dailyTradeCount (tradeStats rt') =
                (if ty = FLAT then dailyTradeCount (tradeStats rt)
                 else dailyTradeCount (tradeStats rt) + 1))
     \<and> (ty = FLAT \<longrightarrow>
          execution_quantity (payload (hd (logs (handleManualOrder now env ty app))))
            = remainingQuantity (positionState rt))
     \<and> payload (hd (logs (handleManualOrder now env ty app))) =
         \<lparr> WebhookPayload.secret = StrategyConfig.secret (config rt),
           action = (case ty of LONG \<Rightarrow> ''buy'' | SHORT \<Rightarrow> ''sell''
                     | FLAT \<Rightarrow> if direction (positionState rt) = LONG then ''sell'' else ''buy_to_cover''),
           position = (case ty of LONG \<Rightarrow> ''long'' | SHORT \<Rightarrow> ''short'' | FLAT \<Rightarrow> ''flat''),
           WebhookPayload.symbol = StrategyConfig.symbol (config rt),
           trade_amount = (if ty = FLAT
                           then jsmul (remainingQuantity (positionState rt)) (js_or (lastPrice rt) (Num 0))
                           else StrategyConfig.tradeAmount (config rt)),
           leverage = 5,
           WebhookPayload.timestamp = toISOString now,
           tv_exchange = ''BINANCE'', strategy_name = ''Manual_Override'',
           tp_level = manualLabel,
           execution_price = js_or (lastPrice rt) (Num 0),
           execution_quantity = (if ty = FLAT then remainingQuantity (positionState rt)
                                 else if jsgt0 (js_or (lastPrice rt) (Num 0))
                                      then jsdiv (StrategyConfig.tradeAmount (config rt)) (js_or (lastPrice rt) (Num 0))
                                      else Num 0) \<rparr>
     \<and> fetched (handleManualOrder now env ty app) =
         fetched app @ (if StrategyConfig.webhookUrl (config rt) = [] then []
                        else [(StrategyConfig.webhookUrl (config rt),
                               payload (hd (logs (handleManualOrder now env ty app))))])"
proof -
  let ?app' = "handleManualOrder now env ty app"
  note p = handleManualOrder_payload [OF assms, of now env ty]
  have ne: "logs ?app' \<noteq> []" and tl: "tl (logs ?app') = logs app"
    using p by simp_all
  have len: "length (logs ?app') = Suc (length (logs app))"
    using ne tl by (cases "logs ?app'") simp_all
  have f: "length (fetched ?app') \<le> Suc (length (fetched app))"
    by (simp add: handleManualOrder_fetched [OF assms])
  have r: "\<exists>rt'. map_of (latestStrategiesRef ?app') (activeStrategyId app) = Some rt'
            \<and> dailyTradeCount (tradeStats rt') =
                (if ty = FLAT then dailyTradeCount (tradeStats rt)
                 else dailyTradeCount (tradeStats rt) + 1)"
    by (simp add: handleManualOrder_runtime [OF assms])
  have pay: "payload (hd (logs ?app')) = \<lparr> WebhookPayload.secret = StrategyConfig.secret (config rt),
           action = (case ty of LONG \<Rightarrow> ''buy'' | SHORT \<Rightarrow> ''sell''
                     | FLAT \<Rightarrow> if direction (positionState rt) = LONG then ''sell'' else ''buy_to_cover''),
           position = (case ty of LONG \<Rightarrow> ''long'' | SHORT \<Rightarrow> ''short'' | FLAT \<Rightarrow> ''flat''),
           WebhookPayload.symbol = StrategyConfig.symbol (config rt),
           trade_amount = (if ty = FLAT
                           then jsmul (remainingQuantity (positionState rt)) (js_or (lastPrice rt) (Num 0))
                           else StrategyConfig.tradeAmount (config rt)),
           leverage = 5,
           WebhookPayload.timestamp = toISOString now,
           tv_exchange = ''BINANCE'', strategy_name = ''Manual_Override'',
           tp_level = manualLabel,
           execution_price = js_or (lastPrice rt) (Num 0),
           execution_quantity = (if ty = FLAT then remainingQuantity (positionState rt)
                                 else if jsgt0 (js_or (lastPrice rt) (Num 0))
                                      then jsdiv (StrategyConfig.tradeAmount (config rt)) (js_or (lastPrice rt) (Num 0))
                                      else Num 0) \<rparr>"
    using p by blast
  have sn: "strategy_name (payload (hd (logs ?app'))) = ''Manual_Override''"
    by (simp only: pay WebhookPayload.select_convs)
  have q: "ty = FLAT \<longrightarrow> execution_quantity (payload (hd (logs ?app'))) = remainingQuantity (positionState rt)"
    by (simp only: pay WebhookPayload.select_convs) simp
  have fx: "fetched ?app' =
         fetched app @ (if StrategyConfig.webhookUrl (config rt) = [] then []
                        else [(StrategyConfig.webhookUrl (config rt), payload (hd (logs ?app')))])"
    by (rule handleManualOrder_fetched [OF assms])
  show ?thesis using len tl sn f r q pay fx by blast
qed


text \<open>The witness: a LONG override with 5 trades on record against a cap of 3.\<close>

theorem manual_override_emits_once_witness:
  "map_of (latestStrategiesRef (exampleApp exampleRuntime)) (activeStrategyId (exampleApp exampleRuntime))
     = Some exampleRuntime
   \<and> StrategyConfig.maxDailyTrades (config exampleRuntime) \<le> dailyTradeCount (tradeStats exampleRuntime)
   \<and> length (logs (handleManualOrder exampleNow (exampleEnv True) LONG (exampleApp exampleRuntime))) = 1
   \<and> (\<exists>rt'. map_of (latestStrategiesRef (handleManualOrder exampleNow (exampleEnv True) LONG (exampleApp exampleRuntime))) ''default'' = Some rt'
          \<and> dailyTradeCount (tradeStats rt') = 6)
   \<and> fetched (handleManualOrder exampleNow (exampleEnv True) LONG (exampleApp exampleRuntime)) =
         [(''https://hooks.example/order'',
           payload (hd (logs (handleManualOrder exampleNow (exampleEnv True) LONG (exampleApp exampleRuntime)))))]
   \<and> action (payload (hd (logs (handleManualOrder exampleNow (exampleEnv True) LONG (exampleApp exampleRuntime)))))
       = ''buy''
   \<and> execution_quantity
         (payload (hd (logs (handleManualOrder exampleNow (exampleEnv True) LONG (exampleApp exampleRuntime)))))
       = Num 10"
proof -
  let ?app' = "handleManualOrder exampleNow (exampleEnv True) LONG (exampleApp exampleRuntime)"
  have h: "map_of (latestStrategiesRef (exampleApp exampleRuntime)) (activeStrategyId (exampleApp exampleRuntime))
     = Some exampleRuntime"
    by (simp add: exampleApp_def)
  have m: "StrategyConfig.maxDailyTrades (config exampleRuntime) \<le> dailyTradeCount (tradeStats exampleRuntime)"
    and a: "activeStrategyId (exampleApp exampleRuntime) = ''default''"
    and c: "dailyTradeCount (tradeStats exampleRuntime) = 5"
    and u: "StrategyConfig.webhookUrl (config exampleRuntime) = ''https://hooks.example/order''"
    and f0: "fetched (exampleApp exampleRuntime) = []"
    and l0: "logs (exampleApp exampleRuntime) = []"
    and lp: "js_or (lastPrice exampleRuntime) (Num 0) = Num 100"
    and ta: "StrategyConfig.tradeAmount (config exampleRuntime) = Num 1000"
    by (simp_all add: exampleApp_def exampleRuntime_def exampleConfig_def)
  note t = manual_override_emits_once [OF h, of exampleNow "exampleEnv True" LONG]
  have l: "length (logs ?app') = 1" using t l0 by simp
  have r: "\<exists>rt'. map_of (latestStrategiesRef ?app') ''default'' = Some rt'
          \<and> dailyTradeCount (tradeStats rt') = 6"
    using t a c by auto
  have f: "fetched ?app' = [(''https://hooks.example/order'', payload (hd (logs ?app')))]"
    using t u f0 by simp
  have "payload (hd (logs ?app')) =
         \<lparr> WebhookPayload.secret = StrategyConfig.secret (config exampleRuntime),
           action = (case LONG of LONG \<Rightarrow> ''buy'' | SHORT \<Rightarrow> ''sell''
                     | FLAT \<Rightarrow> if direction (positionState exampleRuntime) = LONG then ''sell'' else ''buy_to_cover''),
           position = (case LONG of LONG \<Rightarrow> ''long'' | SHORT \<Rightarrow> ''short'' | FLAT \<Rightarrow> ''flat''),
           WebhookPayload.symbol = StrategyConfig.symbol (config exampleRuntime),
           trade_amount = (if LONG = FLAT
                           then jsmul (remainingQuantity (positionState exampleRuntime)) (js_or (lastPrice exampleRuntime) (Num 0))
                           else StrategyConfig.tradeAmount (config exampleRuntime)),
           leverage = 5,
           WebhookPayload.timestamp = toISOString exampleNow,
           tv_exchange = ''BINANCE'', strategy_name = ''Manual_Override'',
           tp_level = manualLabel,
           execution_price = js_or (lastPrice exampleRuntime) (Num 0),
           execution_quantity = (if LONG = FLAT then remainingQuantity (positionState exampleRuntime)
                                 else if jsgt0 (js_or (lastPrice exampleRuntime) (Num 0))
                                      then jsdiv (StrategyConfig.tradeAmount (config exampleRuntime)) (js_or (lastPrice exampleRuntime) (Num 0))
                                      else Num 0) \<rparr>"
    using t by blast
  then have p: "action (payload (hd (logs ?app'))) = ''buy''"
    "execution_quantity (payload (hd (logs ?app'))) = Num 10"
    by (simp_all add: lp ta)
  show ?thesis using h m l r f p by blast
qed


text \<open>
  Claim C5, as stated, asks that both extremes be seeded with the entry price. A manual LONG
  from FLAT at the price 100 sets \<open>entryPrice\<close> to 100 and \<open>lowestPrice\<close> to 0.
\<close>

theorem manual_entry_state_counterexample:
  "direction (positionState exampleRuntime) = FLAT
   \<and> map_option positionState
        (map_of (latestStrategiesRef
                   (handleManualOrder exampleNow (exampleEnv False) LONG (exampleApp exampleRuntime)))
                ''default'')
       = Some \<lparr> direction = LONG, initialQuantity = Num 10, remainingQuantity = Num 10,
                 entryPrice = Num 100, highestPrice = Num 100, lowestPrice = Num 0,
                 openTime = 1704456000000, tpLevelsHit = [], slLevelsHit = [] \<rparr>"
  by (simp add: handleManualOrder_def sendWebhook_def Let_def exampleApp_def exampleRuntime_def
        exampleConfig_def exampleNow_def INITIAL_POS_STATE_def)

text \<open>
  Claim C5, amended. On every manual entry (LONG or SHORT) at a positive last price, from
  FLAT or from any other position: \<open>remainingQuantity = initialQuantity = tradeAmount / price\<close>,
  \<open>entryPrice\<close> is the price, the level lists are empty and \<open>dailyTradeCount\<close> grows by
  exactly 1. Of the two extremes only the one that the direction tracks is seeded with the
  entry price: \<open>highestPrice\<close> for LONG, \<open>lowestPrice\<close> for SHORT; the other one is 0.
\<close>

theorem manual_entry_state:
  assumes "map_of (latestStrategiesRef app) (activeStrategyId app) = Some rt"
    and "ty = LONG \<or> ty = SHORT"
    and "lastPrice rt = Num p" and "0 < p"
  shows "\<exists>rt'. map_of (latestStrategiesRef (handleManualOrder now env ty app)) (activeStrategyId app) = Some rt'
     \<and> positionState rt' =
          \<lparr> direction = ty,
            initialQuantity = jsdiv (StrategyConfig.tradeAmount (config rt)) (Num p),
            remainingQuantity = jsdiv (StrategyConfig.tradeAmount (config rt)) (Num p),
            entryPrice = Num p,
            highestPrice = (if ty = LONG then Num p else Num 0),
            lowestPrice = (if ty = SHORT then Num p else Num 0),
            openTime = getTime now, tpLevelsHit = [], slLevelsHit = [] \<rparr>
     \<and> dailyTradeCount (tradeStats rt') = dailyTradeCount (tradeStats rt) + 1"
  using assms(2-4) by (auto simp add: handleManualOrder_runtime [OF assms(1)])

text \<open>The witness: a manual SHORT at 100 with a trade amount of 1000.\<close>

theorem manual_entry_state_witness:
  "map_of (latestStrategiesRef (exampleApp exampleRuntime)) (activeStrategyId (exampleApp exampleRuntime))
     = Some exampleRuntime
   \<and> lastPrice exampleRuntime = Num 100 \<and> (0::real) < 100
   \<and> (\<exists>rt'. map_of (latestStrategiesRef
                       (handleManualOrder exampleNow (exampleEnv False) SHORT (exampleApp exampleRuntime)))
                     ''default'' = Some rt'
          \<and> remainingQuantity (positionState rt') = Num 10
          \<and> lowestPrice (positionState rt') = Num 100
          \<and> highestPrice (positionState rt') = Num 0
          \<and> dailyTradeCount (tradeStats rt') = 6)"
proof -
  have h: "map_of (latestStrategiesRef (exampleApp exampleRuntime)) (activeStrategyId (exampleApp exampleRuntime))
     = Some exampleRuntime"
    by (simp add: exampleApp_def)
  have l: "lastPrice exampleRuntime = Num 100"
    by (simp add: exampleRuntime_def)
  have a: "activeStrategyId (exampleApp exampleRuntime) = ''default''"
    by (simp add: exampleApp_def)
  have t: "StrategyConfig.tradeAmount (config exampleRuntime) = Num 1000"
    and c: "dailyTradeCount (tradeStats exampleRuntime) = 5"
    by (simp_all add: exampleRuntime_def exampleConfig_def)
  from manual_entry_state [OF h _ l, of SHORT exampleNow "exampleEnv False"]
  obtain rt' where
    "map_of (latestStrategiesRef
               (handleManualOrder exampleNow (exampleEnv False) SHORT (exampleApp exampleRuntime)))
            ''default'' = Some rt'"
    "remainingQuantity (positionState rt') = Num 10"
    "lowestPrice (positionState rt') = Num 100"
    "highestPrice (positionState rt') = Num 0"
    "dailyTradeCount (tradeStats rt') = 6"
    by (auto simp add: a t c)
  then show ?thesis using h l by auto
qed

text \<open>
  Claim C6, as stated, asks that a manual override on a new day restart the count. With
  \<open>lastTradeDate\<close> 2024-01-01 and 5 trades on record, a manual LONG on 2024-01-05 gives
  the count 6 (not 1) and leaves \<open>lastTradeDate\<close> at 2024-01-01.
\<close>

theorem manual_order_new_day_counterexample:
  "isoDate (toISOString exampleNow) \<noteq> lastTradeDate (tradeStats exampleRuntime)
   \<and> map_option tradeStats
        (map_of (latestStrategiesRef
                   (handleManualOrder exampleNow (exampleEnv False) LONG (exampleApp exampleRuntime)))
                ''default'')
       = Some \<lparr> dailyTradeCount = 6, lastTradeDate = ''2024-01-01'' \<rparr>"
  by (simp add: handleManualOrder_def sendWebhook_def Let_def exampleApp_def exampleRuntime_def
        exampleConfig_def exampleNow_def isoDate_def)

text \<open>
  Claim C6, amended. A manual override never compares the date of the order with
  \<open>lastTradeDate\<close>: for every moment \<open>now\<close> it leaves \<open>lastTradeDate\<close> as it is, adds
  exactly 1 to the recorded \<open>dailyTradeCount\<close> for LONG and SHORT without resetting it,
  and leaves the count unchanged for FLAT.
\<close>

theorem manual_order_keeps_date:
  assumes "map_of (latestStrategiesRef app) (activeStrategyId app) = Some rt"
  shows "\<exists>rt'. map_of (latestStrategiesRef (handleManualOrder now env ty app)) (activeStrategyId app) = Some rt'
     \<and> lastTradeDate (tradeStats rt') = lastTradeDate (tradeStats rt)
     \<and> dailyTradeCount (tradeStats rt') =
         (if ty = FLAT then dailyTradeCount (tradeStats rt) else dailyTradeCount (tradeStats rt) + 1)"
  by (simp add: handleManualOrder_runtime [OF assms])

text \<open>The witness: a manual SHORT four days after the last trade date.\<close>

theorem manual_order_keeps_date_witness:
  "map_of (latestStrategiesRef (exampleApp exampleRuntime)) (activeStrategyId (exampleApp exampleRuntime))
     = Some exampleRuntime
   \<and> (\<exists>rt'. map_of (latestStrategiesRef
                       (handleManualOrder exampleNow (exampleEnv False) SHORT (exampleApp exampleRuntime)))
                     ''default'' = Some rt'
          \<and> lastTradeDate (tradeStats rt') = ''2024-01-01''
          \<and> dailyTradeCount (tradeStats rt') = 6)"
proof -
  have h: "map_of (latestStrategiesRef (exampleApp exampleRuntime)) (activeStrategyId (exampleApp exampleRuntime))
     = Some exampleRuntime"
    by (simp add: exampleApp_def)
  show ?thesis
    using h manual_order_keeps_date [OF h, of exampleNow "exampleEnv False" SHORT]
    by (simp add: exampleApp_def exampleRuntime_def)
qed

text \<open>
  Claim C7. A manual LONG or SHORT order whose last price is not greater than 0 (zero,
  negative or \<open>NaN\<close>) still emits its action, with \<open>execution_quantity\<close> 0, and opens the
  position with the quantities 0: the division \<open>tradeAmount / price\<close> is guarded by
  \<open>price > 0\<close> and not evaluated.
\<close>

theorem manual_entry_nonpositive_price:
  assumes "map_of (latestStrategiesRef app) (activeStrategyId app) = Some rt"
    and "ty = LONG \<or> ty = SHORT"
    and "\<not> jsgt0 (lastPrice rt)"
  shows "length (logs (handleManualOrder now env ty app)) = Suc (length (logs app))
     \<and> execution_quantity (payload (hd (logs (handleManualOrder now env ty app)))) = Num 0
     \<and> (\<exists>rt'. map_of (latestStrategiesRef (handleManualOrder now env ty app)) (activeStrategyId app) = Some rt'
            \<and> initialQuantity (positionState rt') = Num 0
            \<and> remainingQuantity (positionState rt') = Num 0)"
proof -
  let ?app' = "handleManualOrder now env ty app"
  note p = handleManualOrder_payload [OF assms(1), of now env ty]
  have np: "\<not> jsgt0 (js_or (lastPrice rt) (Num 0))"
    using assms(3) by (rule js_or_zero_not_pos)
  have len: "length (logs ?app') = Suc (length (logs app))"
    using p by (cases "logs ?app'") simp_all
  have q: "execution_quantity (payload (hd (logs ?app'))) = Num 0"
    using p np assms(2) by auto
  have r: "\<exists>rt'. map_of (latestStrategiesRef ?app') (activeStrategyId app) = Some rt'
            \<and> initialQuantity (positionState rt') = Num 0
            \<and> remainingQuantity (positionState rt') = Num 0"
    using np assms(2) by (auto simp add: handleManualOrder_runtime [OF assms(1)])
  show ?thesis using len q r by blast
qed

text \<open>The witness: a manual LONG at the last price -5.\<close>

theorem manual_entry_nonpositive_price_witness:
  "map_of (latestStrategiesRef (exampleApp (exampleRuntime\<lparr> lastPrice := Num (- 5) \<rparr>)))
          (activeStrategyId (exampleApp (exampleRuntime\<lparr> lastPrice := Num (- 5) \<rparr>)))
     = Some (exampleRuntime\<lparr> lastPrice := Num (- 5) \<rparr>)
   \<and> \<not> jsgt0 (lastPrice (exampleRuntime\<lparr> lastPrice := Num (- 5) \<rparr>))
   \<and> execution_quantity (payload (hd (logs (handleManualOrder exampleNow (exampleEnv False) LONG
          (exampleApp (exampleRuntime\<lparr> lastPrice := Num (- 5) \<rparr>)))))) = Num 0"
proof -
  let ?rt = "exampleRuntime\<lparr> lastPrice := Num (- 5) \<rparr>"
  have h: "map_of (latestStrategiesRef (exampleApp ?rt)) (activeStrategyId (exampleApp ?rt)) = Some ?rt"
    by (simp add: exampleApp_def)
  have n: "\<not> jsgt0 (lastPrice ?rt)"
    by simp
  show ?thesis
    using h n manual_entry_nonpositive_price [OF h _ n, of LONG exampleNow "exampleEnv False"]
    by simp
qed

text \<open>
  Claim C10. A manual FLAT on a position that is already FLAT with \<open>remainingQuantity\<close> 0
  emits exactly one action, \<open>buy_to_cover\<close> / \<open>flat\<close> with \<open>execution_quantity\<close> 0 and
  \<open>trade_amount\<close> 0: one log entry in front of the old logs, and its payload handed to
  \<^verbatim>\<open>fetch\<close> exactly once when the strategy has a webhook URL; the position becomes \<open>INITIAL_POS_STATE\<close> and the trade statistics
  are unchanged.
\<close>

theorem manual_flat_when_flat:
  assumes "map_of (latestStrategiesRef app) (activeStrategyId app) = Some rt"
    and "direction (positionState rt) = FLAT"
    and "remainingQuantity (positionState rt) = Num 0"
  shows "length (logs (handleManualOrder now env FLAT app)) = Suc (length (logs app))
     \<and> action (payload (hd (logs (handleManualOrder now env FLAT app)))) = ''buy_to_cover''
     \<and> position (payload (hd (logs (handleManualOrder now env FLAT app)))) = ''flat''
     \<and> execution_quantity (payload (hd (logs (handleManualOrder now env FLAT app)))) = Num 0
     \<and> trade_amount (payload (hd (logs (handleManualOrder now env FLAT app)))) = Num 0
     \<and> (\<exists>rt'. map_of (latestStrategiesRef (handleManualOrder now env FLAT app)) (activeStrategyId app) = Some rt'
            \<and> positionState rt' = INITIAL_POS_STATE
            \<and> tradeStats rt' = tradeStats rt)
     \<and> tl (logs (handleManualOrder now env FLAT app)) = logs app
     \<and> fetched (handleManualOrder now env FLAT app) =
         fetched app @ (if StrategyConfig.webhookUrl (config rt) = [] then []
                        else [(StrategyConfig.webhookUrl (config rt),
                               payload (hd (logs (handleManualOrder now env FLAT app))))])"
proof -
  let ?app' = "handleManualOrder now env FLAT app"
  note p = handleManualOrder_payload [OF assms(1), of now env FLAT]
  obtain q where q: "js_or (lastPrice rt) (Num 0) = Num q"
    using js_or_zero_Num by blast
  have len: "length (logs ?app') = Suc (length (logs app))"
    using p by (cases "logs ?app'") simp_all
  have a: "action (payload (hd (logs ?app'))) = ''buy_to_cover''"
    and b: "position (payload (hd (logs ?app'))) = ''flat''"
    and c: "execution_quantity (payload (hd (logs ?app'))) = Num 0"
    and d: "trade_amount (payload (hd (logs ?app'))) = Num 0"
    using p assms(2,3) q by simp_all
  have r: "\<exists>rt'. map_of (latestStrategiesRef ?app') (activeStrategyId app) = Some rt'
            \<and> positionState rt' = INITIAL_POS_STATE \<and> tradeStats rt' = tradeStats rt"
    by (simp add: handleManualOrder_runtime [OF assms(1)])
  have tl: "tl (logs ?app') = logs app"
    using p by simp
  have fx: "fetched ?app' =
         fetched app @ (if StrategyConfig.webhookUrl (config rt) = [] then []
                        else [(StrategyConfig.webhookUrl (config rt), payload (hd (logs ?app')))])"
    by (rule handleManualOrder_fetched [OF assms(1)])
  show ?thesis using len a b c d r tl fx by blast
qed

text \<open>The witness: a manual FLAT on the example strategy, whose position is the initial one.\<close>

theorem manual_flat_when_flat_witness:
  "map_of (latestStrategiesRef (exampleApp exampleRuntime)) (activeStrategyId (exampleApp exampleRuntime))
     = Some exampleRuntime
   \<and> direction (positionState exampleRuntime) = FLAT
   \<and> remainingQuantity (positionState exampleRuntime) = Num 0
   \<and> length (logs (handleManualOrder exampleNow (exampleEnv False) FLAT (exampleApp exampleRuntime))) = 1
   \<and> action (payload (hd (logs (handleManualOrder exampleNow (exampleEnv False) FLAT (exampleApp exampleRuntime)))))
       = ''buy_to_cover''
   \<and> trade_amount (payload (hd (logs (handleManualOrder exampleNow (exampleEnv False) FLAT (exampleApp exampleRuntime)))))
       = Num 0
   \<and> fetched (handleManualOrder exampleNow (exampleEnv False) FLAT (exampleApp exampleRuntime)) =
         [(''https://hooks.example/order'',
           payload (hd (logs (handleManualOrder exampleNow (exampleEnv False) FLAT (exampleApp exampleRuntime)))))]"
proof -
  let ?app' = "handleManualOrder exampleNow (exampleEnv False) FLAT (exampleApp exampleRuntime)"
  have h: "map_of (latestStrategiesRef (exampleApp exampleRuntime)) (activeStrategyId (exampleApp exampleRuntime))
     = Some exampleRuntime"
    by (simp add: exampleApp_def)
  have d: "direction (positionState exampleRuntime) = FLAT"
    and q: "remainingQuantity (positionState exampleRuntime) = Num 0"
    by (simp_all add: exampleRuntime_def INITIAL_POS_STATE_def)
  have u: "StrategyConfig.webhookUrl (config exampleRuntime) = ''https://hooks.example/order''"
    and f0: "fetched (exampleApp exampleRuntime) = []"
    and l0: "logs (exampleApp exampleRuntime) = []"
    by (simp_all add: exampleApp_def exampleRuntime_def exampleConfig_def)
  note t = manual_flat_when_flat [OF h d q, of exampleNow "exampleEnv False"]
  have l: "length (logs ?app') = 1" using t l0 by simp
  have a: "action (payload (hd (logs ?app'))) = ''buy_to_cover''"
    and b: "trade_amount (payload (hd (logs ?app'))) = Num 0"
    using t by blast+
  have f: "fetched ?app' = [(''https://hooks.example/order'', payload (hd (logs ?app')))]"
    using t u f0 by simp
  show ?thesis using h d q l a b f by blast
qed


text \<open>
  Claim C9. For every payload and every environment, whether \<^verbatim>\<open>fetch\<close> throws or not,
  \<^verbatim>\<open>sendWebhook\<close> leaves the registry as it is, hence the \<open>positionState\<close> and the
  \<open>tradeStats\<close> of every strategy; it adds one log entry and hands at most one request to
  \<^verbatim>\<open>fetch\<close> (no retry); a throwing \<^verbatim>\<open>fetch\<close> leaves one line on the console and nothing
  else.
\<close>

theorem sendWebhook_leaves_positions:
  "latestStrategiesRef (sendWebhook env p sid sn app) = latestStrategiesRef app
   \<and> strategies (sendWebhook env p sid sn app) = strategies app
   \<and> (\<forall>k. map_option positionState (map_of (latestStrategiesRef (sendWebhook env p sid sn app)) k)
            = map_option positionState (map_of (latestStrategiesRef app) k))
   \<and> (\<forall>k. map_option tradeStats (map_of (latestStrategiesRef (sendWebhook env p sid sn app)) k)
            = map_option tradeStats (map_of (latestStrategiesRef app) k))
   \<and> length (fetched (sendWebhook env p sid sn app)) \<le> Suc (length (fetched app))
   \<and> length (logs (sendWebhook env p sid sn app)) = Suc (length (logs app))
   \<and> console (sendWebhook env p sid sn app) =
         console app @ (case map_of (latestStrategiesRef app) sid of
                          None \<Rightarrow> []
                        | Some rt \<Rightarrow> if StrategyConfig.webhookUrl (config rt) \<noteq> [] \<and> fetchThrows env
                                     then [''Webhook Error''] else [])"
  by (simp add: sendWebhook_frame sendWebhook_logs sendWebhook_fetched sendWebhook_console
        split: option.splits)

lemma changedTo_iff:
  assumes "v \<noteq> Some []"
  shows "changedTo v old \<longleftrightarrow> (case v of None \<Rightarrow> old | Some s \<Rightarrow> s) \<noteq> old"
  using assms by (cases v) (auto simp add: changedTo_def)

lemma changedTo_ex: "changedTo v old \<longleftrightarrow> (\<exists>s. v = Some s \<and> s \<noteq> [] \<and> s \<noteq> old)"
  by (cases v) (auto simp add: changedTo_def)

text \<open>
  Claim C8, as stated, asks for a reset whenever the update changes the symbol. The update
  \<^verbatim>\<open>{ symbol: '' }\<close> on a strategy for BTCUSDT with two candles and the last price 100 changes
  the symbol of the configuration to the empty string and keeps the two candles and the
  last price: the code tests \<^verbatim>\<open>updates.symbol && ...\<close>, and the empty string is falsy.
\<close>

theorem updateStrategyConfig_empty_symbol_counterexample:
  "StrategyConfig.symbol (config exampleWatching) = ''BTCUSDT''
   \<and> map_option config
        (map_of (latestStrategiesRef
                   (updateStrategyConfig ''default''
                      (noUpdates\<lparr> PartialStrategyConfig.symbol := Some [] \<rparr>)
                      (exampleApp exampleWatching)))
                ''default'')
       = Some (exampleConfig\<lparr> StrategyConfig.symbol := [] \<rparr>)
   \<and> map_option candles
        (map_of (latestStrategiesRef
                   (updateStrategyConfig ''default''
                      (noUpdates\<lparr> PartialStrategyConfig.symbol := Some [] \<rparr>)
                      (exampleApp exampleWatching)))
                ''default'')
       = Some [candleAt 1 (Num 100), candleAt 2 (Num 101)]
   \<and> map_option lastPrice
        (map_of (latestStrategiesRef
                   (updateStrategyConfig ''default''
                      (noUpdates\<lparr> PartialStrategyConfig.symbol := Some [] \<rparr>)
                      (exampleApp exampleWatching)))
                ''default'')
       = Some (Num 100)"
  by (simp add: updateStrategyConfig_def Let_def update_conv' mergeConfig_def changedTo_def
        noUpdates_def exampleApp_def exampleWatching_def exampleRuntime_def exampleConfig_def)

text \<open>
  Claim C8, amended. \<^verbatim>\<open>updateStrategyConfig\<close> on an existing runtime merges the update into
  the configuration: every field that the update gives replaces the old one, every other field
  is kept. The candle window becomes empty and \<open>lastPrice\<close> 0 when the update gives a
  non-empty symbol or a non-empty interval that differs from the current one, and both are
  kept otherwise; for an update that gives no empty string as symbol or interval this is
  exactly when the symbol or the interval of the configuration changes. The
  \<open>positionState\<close> and the \<open>tradeStats\<close> are kept in every case, and so is every other
  runtime of the registry.
\<close>

theorem updateStrategyConfig_effect:
  assumes "map_of (latestStrategiesRef app) k = Some rt"
  shows "\<exists>rt'. map_of (latestStrategiesRef (updateStrategyConfig k u app)) k = Some rt'
     \<and> StrategyConfig.id (config rt') =
         (case PartialStrategyConfig.id u of None \<Rightarrow> StrategyConfig.id (config rt) | Some v \<Rightarrow> v)
     \<and> StrategyConfig.name (config rt') =
         (case PartialStrategyConfig.name u of None \<Rightarrow> StrategyConfig.name (config rt) | Some v \<Rightarrow> v)
     \<and> StrategyConfig.symbol (config rt') =
         (case PartialStrategyConfig.symbol u of None \<Rightarrow> StrategyConfig.symbol (config rt) | Some v \<Rightarrow> v)
     \<and> StrategyConfig.interval (config rt') =
         (case PartialStrategyConfig.interval u of None \<Rightarrow> StrategyConfig.interval (config rt) | Some v \<Rightarrow> v)
     \<and> StrategyConfig.macdFast (config rt') =
         (case PartialStrategyConfig.macdFast u of None \<Rightarrow> StrategyConfig.macdFast (config rt) | Some v \<Rightarrow> v)
     \<and> StrategyConfig.macdSlow (config rt') =
         (case PartialStrategyConfig.macdSlow u of None \<Rightarrow> StrategyConfig.macdSlow (config rt) | Some v \<Rightarrow> v)
     \<and> StrategyConfig.macdSignal (config rt') =
         (case PartialStrategyConfig.macdSignal u of None \<Rightarrow> StrategyConfig.macdSignal (config rt) | Some v \<Rightarrow> v)
     \<and> StrategyConfig.tradeAmount (config rt') =
         (case PartialStrategyConfig.tradeAmount u of None \<Rightarrow> StrategyConfig.tradeAmount (config rt) | Some v \<Rightarrow> v)
     \<and> StrategyConfig.maxDailyTrades (config rt') =
         (case PartialStrategyConfig.maxDailyTrades u of None \<Rightarrow> StrategyConfig.maxDailyTrades (config rt) | Some v \<Rightarrow> v)
     \<and> StrategyConfig.webhookUrl (config rt') =
         (case PartialStrategyConfig.webhookUrl u of None \<Rightarrow> StrategyConfig.webhookUrl (config rt) | Some v \<Rightarrow> v)
     \<and> StrategyConfig.secret (config rt') =
         (case PartialStrategyConfig.secret u of None \<Rightarrow> StrategyConfig.secret (config rt) | Some v \<Rightarrow> v)
     \<and> StrategyConfig.otherFields (config rt') =
         StrategyConfig.otherFields (config rt) ++ PartialStrategyConfig.otherFields u
     \<and> (if (\<exists>s. PartialStrategyConfig.symbol u = Some s \<and> s \<noteq> []
                  \<and> s \<noteq> StrategyConfig.symbol (config rt))
            \<or> (\<exists>s. PartialStrategyConfig.interval u = Some s \<and> s \<noteq> []
                  \<and> s \<noteq> StrategyConfig.interval (config rt))
         then candles rt' = [] \<and> lastPrice rt' = Num 0
         else candles rt' = candles rt \<and> lastPrice rt' = lastPrice rt)
     \<and> (PartialStrategyConfig.symbol u \<noteq> Some [] \<and> PartialStrategyConfig.interval u \<noteq> Some [] \<longrightarrow>
          (if StrategyConfig.symbol (config rt') \<noteq> StrategyConfig.symbol (config rt)
              \<or> StrategyConfig.interval (config rt') \<noteq> StrategyConfig.interval (config rt)
           then candles rt' = [] \<and> lastPrice rt' = Num 0
           else candles rt' = candles rt \<and> lastPrice rt' = lastPrice rt))
     \<and> positionState rt' = positionState rt
     \<and> tradeStats rt' = tradeStats rt
     \<and> (\<forall>k'. k' \<noteq> k \<longrightarrow>
           map_of (latestStrategiesRef (updateStrategyConfig k u app)) k' = map_of (latestStrategiesRef app) k')
     \<and> strategies (updateStrategyConfig k u app) = latestStrategiesRef (updateStrategyConfig k u app)"
proof -
  define reset where
    "reset \<longleftrightarrow> changedTo (PartialStrategyConfig.symbol u) (StrategyConfig.symbol (config rt))
              \<or> changedTo (PartialStrategyConfig.interval u) (StrategyConfig.interval (config rt))"
  define rt' where
    "rt' = rt\<lparr> config := mergeConfig (config rt) u,
               candles := (if reset then [] else candles rt),
               lastPrice := (if reset then Num 0 else lastPrice rt) \<rparr>"
  have ref: "latestStrategiesRef (updateStrategyConfig k u app) = AList.update k rt' (latestStrategiesRef app)"
    and str: "strategies (updateStrategyConfig k u app) = latestStrategiesRef (updateStrategyConfig k u app)"
    using assms by (simp_all add: updateStrategyConfig_def Let_def rt'_def reset_def)
  have a: "map_of (latestStrategiesRef (updateStrategyConfig k u app)) k = Some rt'"
    by (simp add: ref update_conv')
  have o: "\<forall>k'. k' \<noteq> k \<longrightarrow>
           map_of (latestStrategiesRef (updateStrategyConfig k u app)) k' = map_of (latestStrategiesRef app) k'"
    by (simp add: ref update_conv')
  have c: "config rt' = mergeConfig (config rt) u"
    and ps: "positionState rt' = positionState rt" and ts: "tradeStats rt' = tradeStats rt"
    by (simp_all add: rt'_def)
  have r: "reset \<longleftrightarrow> (\<exists>s. PartialStrategyConfig.symbol u = Some s \<and> s \<noteq> []
                  \<and> s \<noteq> StrategyConfig.symbol (config rt))
            \<or> (\<exists>s. PartialStrategyConfig.interval u = Some s \<and> s \<noteq> []
                  \<and> s \<noteq> StrategyConfig.interval (config rt))"
    by (simp only: reset_def changedTo_ex)
  have w: "if reset then candles rt' = [] \<and> lastPrice rt' = Num 0
           else candles rt' = candles rt \<and> lastPrice rt' = lastPrice rt"
    by (simp add: rt'_def)
  have r': "PartialStrategyConfig.symbol u \<noteq> Some [] \<and> PartialStrategyConfig.interval u \<noteq> Some [] \<longrightarrow>
          (reset \<longleftrightarrow> StrategyConfig.symbol (config rt') \<noteq> StrategyConfig.symbol (config rt)
              \<or> StrategyConfig.interval (config rt') \<noteq> StrategyConfig.interval (config rt))"
    by (auto simp add: reset_def c mergeConfig_def changedTo_iff)
  have m: "StrategyConfig.id (config rt') =
         (case PartialStrategyConfig.id u of None \<Rightarrow> StrategyConfig.id (config rt) | Some v \<Rightarrow> v)"
    "StrategyConfig.name (config rt') =
         (case PartialStrategyConfig.name u of None \<Rightarrow> StrategyConfig.name (config rt) | Some v \<Rightarrow> v)"
    "StrategyConfig.symbol (config rt') =
         (case PartialStrategyConfig.symbol u of None \<Rightarrow> StrategyConfig.symbol (config rt) | Some v \<Rightarrow> v)"
    "StrategyConfig.interval (config rt') =
         (case PartialStrategyConfig.interval u of None \<Rightarrow> StrategyConfig.interval (config rt) | Some v \<Rightarrow> v)"
    "StrategyConfig.macdFast (config rt') =
         (case PartialStrategyConfig.macdFast u of None \<Rightarrow> StrategyConfig.macdFast (config rt) | Some v \<Rightarrow> v)"
    "StrategyConfig.macdSlow (config rt') =
         (case PartialStrategyConfig.macdSlow u of None \<Rightarrow> StrategyConfig.macdSlow (config rt) | Some v \<Rightarrow> v)"
    "StrategyConfig.macdSignal (config rt') =
         (case PartialStrategyConfig.macdSignal u of None \<Rightarrow> StrategyConfig.macdSignal (config rt) | Some v \<Rightarrow> v)"
    "StrategyConfig.tradeAmount (config rt') =
         (case PartialStrategyConfig.tradeAmount u of None \<Rightarrow> StrategyConfig.tradeAmount (config rt) | Some v \<Rightarrow> v)"
    "StrategyConfig.maxDailyTrades (config rt') =
         (case PartialStrategyConfig.maxDailyTrades u of None \<Rightarrow> StrategyConfig.maxDailyTrades (config rt) | Some v \<Rightarrow> v)"
    "StrategyConfig.webhookUrl (config rt') =
         (case PartialStrategyConfig.webhookUrl u of None \<Rightarrow> StrategyConfig.webhookUrl (config rt) | Some v \<Rightarrow> v)"
    "StrategyConfig.secret (config rt') =
         (case PartialStrategyConfig.secret u of None \<Rightarrow> StrategyConfig.secret (config rt) | Some v \<Rightarrow> v)"
    "StrategyConfig.otherFields (config rt') =
         StrategyConfig.otherFields (config rt) ++ PartialStrategyConfig.otherFields u"
    by (simp_all add: c mergeConfig_def)
  have w1: "if (\<exists>s. PartialStrategyConfig.symbol u = Some s \<and> s \<noteq> []
                  \<and> s \<noteq> StrategyConfig.symbol (config rt))
            \<or> (\<exists>s. PartialStrategyConfig.interval u = Some s \<and> s \<noteq> []
                  \<and> s \<noteq> StrategyConfig.interval (config rt))
         then candles rt' = [] \<and> lastPrice rt' = Num 0
         else candles rt' = candles rt \<and> lastPrice rt' = lastPrice rt"
    using w unfolding r .
  have w2: "PartialStrategyConfig.symbol u \<noteq> Some [] \<and> PartialStrategyConfig.interval u \<noteq> Some [] \<longrightarrow>
          (if StrategyConfig.symbol (config rt') \<noteq> StrategyConfig.symbol (config rt)
              \<or> StrategyConfig.interval (config rt') \<noteq> StrategyConfig.interval (config rt)
           then candles rt' = [] \<and> lastPrice rt' = Num 0
           else candles rt' = candles rt \<and> lastPrice rt' = lastPrice rt)"
    using w r' by presburger
  show ?thesis
    by (intro exI [of _ rt'] conjI a m w1 w2 ps ts o str)
qed

text \<open>The witness: the symbol changes from BTCUSDT to ETHUSDT on a window of one candle.\<close>

theorem updateStrategyConfig_effect_witness:
  "map_of (latestStrategiesRef (exampleApp (exampleRuntime\<lparr> candles := [candleAt 1 (Num 100)] \<rparr>))) ''default''
     = Some (exampleRuntime\<lparr> candles := [candleAt 1 (Num 100)] \<rparr>)
   \<and> PartialStrategyConfig.symbol (noUpdates\<lparr> PartialStrategyConfig.symbol := Some ''ETHUSDT'' \<rparr>) \<noteq> Some []
   \<and> PartialStrategyConfig.interval (noUpdates\<lparr> PartialStrategyConfig.symbol := Some ''ETHUSDT'' \<rparr>) \<noteq> Some []
   \<and> (\<exists>rt'. map_of (latestStrategiesRef
                       (updateStrategyConfig ''default''
                          (noUpdates\<lparr> PartialStrategyConfig.symbol := Some ''ETHUSDT'' \<rparr>)
                          (exampleApp (exampleRuntime\<lparr> candles := [candleAt 1 (Num 100)] \<rparr>))))
                     ''default'' = Some rt'
          \<and> StrategyConfig.symbol (config rt') = ''ETHUSDT''
          \<and> StrategyConfig.interval (config rt') = ''1m''
          \<and> StrategyConfig.tradeAmount (config rt') = Num 1000
          \<and> candles rt' = [] \<and> lastPrice rt' = Num 0
          \<and> positionState rt' = INITIAL_POS_STATE
          \<and> dailyTradeCount (tradeStats rt') = 5)"
proof -
  let ?rt = "exampleRuntime\<lparr> candles := [candleAt 1 (Num 100)] \<rparr>"
  let ?u = "noUpdates\<lparr> PartialStrategyConfig.symbol := Some ''ETHUSDT'' \<rparr>"
  have h: "map_of (latestStrategiesRef (exampleApp ?rt)) ''default'' = Some ?rt"
    by (simp add: exampleApp_def)
  have s: "PartialStrategyConfig.symbol ?u \<noteq> Some []"
    and i: "PartialStrategyConfig.interval ?u \<noteq> Some []"
    and su: "PartialStrategyConfig.symbol ?u = Some ''ETHUSDT''"
    and iu: "PartialStrategyConfig.interval ?u = None"
    and tu: "PartialStrategyConfig.tradeAmount ?u = None"
    by (simp_all add: noUpdates_def)
  have o: "StrategyConfig.symbol (config exampleRuntime) = ''BTCUSDT''"
    and oi: "StrategyConfig.interval (config exampleRuntime) = ''1m''"
    and ot: "StrategyConfig.tradeAmount (config exampleRuntime) = Num 1000"
    and ps: "positionState exampleRuntime = INITIAL_POS_STATE"
    and d: "dailyTradeCount (tradeStats exampleRuntime) = 5"
    by (simp_all add: exampleRuntime_def exampleConfig_def)
  from updateStrategyConfig_effect [OF h, of ?u]
  obtain rt' where
    "map_of (latestStrategiesRef (updateStrategyConfig ''default'' ?u (exampleApp ?rt))) ''default'' = Some rt'"
    "StrategyConfig.symbol (config rt') = ''ETHUSDT''"
    "StrategyConfig.interval (config rt') = ''1m''"
    "StrategyConfig.tradeAmount (config rt') = Num 1000"
    "candles rt' = []" "lastPrice rt' = Num 0"
    "positionState rt' = INITIAL_POS_STATE"
    "dailyTradeCount (tradeStats rt') = 5"
    by (auto simp add: su iu tu o oi ot ps d)
  then show ?thesis using h s i by blast
qed

end
